theory Spec2Isabelle
  imports Main
begin

section \<open>Values of the Python program\<close>

text \<open>
  The script \<^verbatim>\<open>freeapi.py\<close> issues one GET request, decodes the body as JSON and reads
  two fields of the first record. The decoded body is a dynamically typed Python value:
  \<^verbatim>\<open>None\<close>, a \<^verbatim>\<open>bool\<close>, an \<^verbatim>\<open>int\<close>, a \<^verbatim>\<open>float\<close>, a \<^verbatim>\<open>str\<close>, a \<^verbatim>\<open>list\<close> or a \<^verbatim>\<open>dict\<close> with
  string keys. The program observes of a float only whether it is non-zero (truthiness)
  and its \<^verbatim>\<open>repr\<close> (when printed), so a float is kept as these two observations.
  A \<^verbatim>\<open>str\<close> is a list of characters with code points below 256; a \<^verbatim>\<open>dict\<close> is an
  association list, looked up with \<^const>\<open>map_of\<close>.
\<close>

datatype pyfloat = PyFloat (float_nonzero: bool) (float_repr: string)

datatype json =
    JNull
  | JBool bool
  | JInt int
  | JFloat pyfloat
  | JStr string
  | JArr "json list"
  | JObj "(string \<times> json) list"

text \<open>A subscript of the program is a string key or an integer index.\<close>

datatype pykey = KStr string | KInt int

text \<open>
  The exceptions that can arise. \<open>RequestException\<close> stands for an instance of
  \<^verbatim>\<open>requests.RequestException\<close> or of a subclass raised by \<^verbatim>\<open>requests.get\<close> (connection
  failure, DNS failure, timeout, too many redirects); \<open>HTTPError\<close> is the subclass raised
  by \<^verbatim>\<open>raise_for_status\<close>; \<open>RequestsJSONDecodeError\<close> is
  \<^verbatim>\<open>requests.exceptions.JSONDecodeError\<close>, which derives from \<^verbatim>\<open>RequestException\<close>;
  \<open>JSONDecodeError\<close> is \<^verbatim>\<open>json.JSONDecodeError\<close>, a \<^verbatim>\<open>ValueError\<close>;
  \<open>UnicodeEncodeError\<close> is raised by \<^verbatim>\<open>print\<close>. The string carried is \<^verbatim>\<open>str(e)\<close>.
\<close>

datatype pyexc =
    RequestException string
  | HTTPError string
  | RequestsJSONDecodeError string
  | JSONDecodeError string
  | ValueError string
  | RecursionError string
  | UnicodeEncodeError string
  | KeyError pykey
  | IndexError string
  | TypeError string
  | Exception string

text \<open>\<^verbatim>\<open>isinstance(e, requests.RequestException)\<close>\<close>

fun is_RequestException :: "pyexc \<Rightarrow> bool" where
  "is_RequestException (RequestException m) = True"
| "is_RequestException (HTTPError m) = True"
| "is_RequestException (RequestsJSONDecodeError m) = True"
| "is_RequestException e = False"

text \<open>\<^verbatim>\<open>isinstance(e, KeyError)\<close>: \<^verbatim>\<open>IndexError\<close> is a \<^verbatim>\<open>LookupError\<close> but not a \<^verbatim>\<open>KeyError\<close>.\<close>

fun is_KeyError :: "pyexc \<Rightarrow> bool" where
  "is_KeyError (KeyError k) = True"
| "is_KeyError e = False"

text \<open>\<^verbatim>\<open>isinstance(e, Exception)\<close>: every class above derives from \<^verbatim>\<open>Exception\<close>.\<close>

fun is_Exception :: "pyexc \<Rightarrow> bool" where
  "is_Exception e = True"

section \<open>Python built-ins used by the program\<close>

subsection \<open>Truth value, subscript and membership\<close>

text \<open>The truth value that \<^verbatim>\<open>if\<close> and \<^verbatim>\<open>and\<close> test.\<close>

fun truthy :: "json \<Rightarrow> bool" where
  "truthy JNull = False"
| "truthy (JBool b) = b"
| "truthy (JInt i) = (i \<noteq> 0)"
| "truthy (JFloat f) = float_nonzero f"
| "truthy (JStr s) = (s \<noteq> [])"
| "truthy (JArr xs) = (xs \<noteq> [])"
| "truthy (JObj kvs) = (kvs \<noteq> [])"

text \<open>\<^verbatim>\<open>type(v).__name__\<close>, as it appears in the messages of \<^verbatim>\<open>TypeError\<close>.\<close>

fun type_name :: "json \<Rightarrow> string" where
  "type_name JNull = ''NoneType''"
| "type_name (JBool b) = ''bool''"
| "type_name (JInt i) = ''int''"
| "type_name (JFloat f) = ''float''"
| "type_name (JStr s) = ''str''"
| "type_name (JArr xs) = ''list''"
| "type_name (JObj kvs) = ''dict''"

definition quoted :: "string \<Rightarrow> string" where
  "quoted s = [CHR 0x27] @ s @ [CHR 0x27]"

text \<open>
  \<^verbatim>\<open>xs[i]\<close> on a list or a string: a negative index counts from the end, an index out of
  range raises \<^verbatim>\<open>IndexError\<close>.
\<close>

definition seq_index :: "string \<Rightarrow> 'a list \<Rightarrow> int \<Rightarrow> pyexc + 'a" where
  "seq_index what xs i =
     (let j = (if i < 0 then i + int (length xs) else i)
      in if j < 0 \<or> int (length xs) \<le> j
         then Inl (IndexError (what @ '' index out of range''))
         else Inr (xs ! nat j))"

text \<open>
  \<^verbatim>\<open>v[k]\<close>. A dict decoded from JSON has string keys only, so an integer subscript of a
  dict is a missing key.
\<close>

fun py_getitem :: "json \<Rightarrow> pykey \<Rightarrow> pyexc + json" where
  "py_getitem (JObj kvs) (KStr k) =
     (case map_of kvs k of None \<Rightarrow> Inl (KeyError (KStr k)) | Some v \<Rightarrow> Inr v)"
| "py_getitem (JObj kvs) (KInt i) = Inl (KeyError (KInt i))"
| "py_getitem (JArr xs) (KInt i) = seq_index ''list'' xs i"
| "py_getitem (JArr xs) (KStr k) =
     Inl (TypeError ''list indices must be integers or slices, not str'')"
| "py_getitem (JStr s) (KInt i) =
     (case seq_index ''string'' s i of Inl e \<Rightarrow> Inl e | Inr c \<Rightarrow> Inr (JStr [c]))"
| "py_getitem (JStr s) (KStr k) =
     Inl (TypeError (''string indices must be integers, not '' @ quoted ''str''))"
| "py_getitem v k = Inl (TypeError (quoted (type_name v) @ '' object is not subscriptable''))"

text \<open>\<^verbatim>\<open>k in s\<close> for two strings: \<open>k\<close> occurs in \<open>s\<close> as a contiguous substring.\<close>

fun has_substring :: "string \<Rightarrow> string \<Rightarrow> bool" where
  "has_substring k [] = (k = [])"
| "has_substring k (c # cs) = (take (length k) (c # cs) = k \<or> has_substring k cs)"

text \<open>
  \<^verbatim>\<open>k in v\<close> for a string \<open>k\<close>: a key of a dict, an element of a list (only a string
  equals a string), a substring of a string; any other value is not iterable.
\<close>

fun py_contains :: "string \<Rightarrow> json \<Rightarrow> pyexc + bool" where
  "py_contains k (JObj kvs) = Inr (map_of kvs k \<noteq> None)"
| "py_contains k (JArr xs) = Inr (JStr k \<in> set xs)"
| "py_contains k (JStr s) = Inr (has_substring k s)"
| "py_contains k v =
     Inl (TypeError (''argument of type '' @ quoted (type_name v) @ '' is not iterable''))"

subsection \<open>Conversion to text\<close>

definition digit_char :: "nat \<Rightarrow> char" where
  "digit_char d = ''0123456789abcdef'' ! d"

fun str_nat :: "nat \<Rightarrow> string" where
  "str_nat n = (if n < 10 then [digit_char n] else str_nat (n div 10) @ [digit_char (n mod 10)])"

definition str_int :: "int \<Rightarrow> string" where
  "str_int i = (if i < 0 then CHR ''-'' # str_nat (nat (- i)) else str_nat (nat i))"

text \<open>
  \<^verbatim>\<open>repr\<close> of a string: in single quotes, unless the string holds a single quote and no
  double quote; the quote in use and the backslash are escaped, tab, newline and carriage
  return have their letters, and any other character that is not printable is written
  \<^verbatim>\<open>\xNN\<close>. Below 256 the printable characters are 32 to 126 and 161 to 255 without 173.
\<close>

definition printable :: "char \<Rightarrow> bool" where
  "printable c =
     (let n = (of_char c :: nat)
      in (32 \<le> n \<and> n \<le> 126) \<or> (161 \<le> n \<and> n \<le> 255 \<and> n \<noteq> 173))"

definition repr_char :: "char \<Rightarrow> char \<Rightarrow> string" where
  "repr_char q c =
     (if c = q \<or> c = CHR 0x5C then [CHR 0x5C, c]
      else if c = CHR 0x09 then [CHR 0x5C, CHR ''t'']
      else if c = CHR 0x0A then [CHR 0x5C, CHR ''n'']
      else if c = CHR 0x0D then [CHR 0x5C, CHR ''r'']
      else if printable c then [c]
      else [CHR 0x5C, CHR ''x'', digit_char (of_char c div 16), digit_char (of_char c mod 16)])"

definition repr_str :: "string \<Rightarrow> string" where
  "repr_str s =
     (let q = (if CHR 0x27 \<in> set s \<and> CHR 0x22 \<notin> set s then CHR 0x22 else CHR 0x27)
      in [q] @ concat (map (repr_char q) s) @ [q])"

text \<open>\<^verbatim>\<open>', '.join(parts)\<close>\<close>

fun join_comma :: "string list \<Rightarrow> string" where
  "join_comma [] = []"
| "join_comma [p] = p"
| "join_comma (p # ps) = p @ '', '' @ join_comma ps"

text \<open>\<^verbatim>\<open>repr(v)\<close> of a decoded value.\<close>

fun py_repr :: "json \<Rightarrow> string" where
  "py_repr JNull = ''None''"
| "py_repr (JBool b) = (if b then ''True'' else ''False'')"
| "py_repr (JInt i) = str_int i"
| "py_repr (JFloat f) = float_repr f"
| "py_repr (JStr s) = repr_str s"
| "py_repr (JArr xs) = ''['' @ join_comma (map py_repr xs) @ '']''"
| "py_repr (JObj kvs) =
     ''{'' @ join_comma (map (\<lambda>kv. repr_str (fst kv) @ '': '' @ py_repr (snd kv)) kvs) @ ''}''"

text \<open>\<^verbatim>\<open>str(v)\<close>, which an f-string applies to a value: a string is itself.\<close>

definition py_str :: "json \<Rightarrow> string" where
  "py_str v = (case v of JStr s \<Rightarrow> s | _ \<Rightarrow> py_repr v)"

text \<open>\<^verbatim>\<open>str(e)\<close> of an exception: the message, and for a \<^verbatim>\<open>KeyError\<close> the \<^verbatim>\<open>repr\<close> of the key.\<close>

fun str_exc :: "pyexc \<Rightarrow> string" where
  "str_exc (RequestException m) = m"
| "str_exc (HTTPError m) = m"
| "str_exc (RequestsJSONDecodeError m) = m"
| "str_exc (JSONDecodeError m) = m"
| "str_exc (ValueError m) = m"
| "str_exc (RecursionError m) = m"
| "str_exc (UnicodeEncodeError m) = m"
| "str_exc (KeyError (KStr k)) = repr_str k"
| "str_exc (KeyError (KInt i)) = str_int i"
| "str_exc (IndexError m) = m"
| "str_exc (TypeError m) = m"
| "str_exc (Exception m) = m"

section \<open>The network and the \<^verbatim>\<open>requests\<close> library\<close>

text \<open>
  The library is not part of the script; it is modelled as far as the script uses it.
  A response carries its status code, reason phrase and final URL, and what Python's JSON
  decoder makes of its body. The decoder returns a value (\<open>Decoded\<close>; it also accepts the
  literals \<^verbatim>\<open>NaN\<close>, \<^verbatim>\<open>Infinity\<close> and \<^verbatim>\<open>-Infinity\<close>, which are not JSON), or it raises:
  \<^verbatim>\<open>json.JSONDecodeError\<close> for a text outside its grammar (\<open>Malformed\<close>), \<^verbatim>\<open>RecursionError\<close>
  for a nesting deeper than the interpreter's recursion limit (\<open>TooDeep\<close>), \<^verbatim>\<open>ValueError\<close> for
  an integer literal longer than the interpreter's limit on integer conversion
  (\<open>IntTooLong\<close>). The string is \<^verbatim>\<open>str\<close> of the error.
\<close>

datatype body = Malformed string | TooDeep string | IntTooLong string | Decoded json

record response =
  status_code :: nat
  reason :: string
  resp_url :: string
  content :: body

text \<open>
  \<^verbatim>\<open>requests.get(url)\<close> either raises a \<^verbatim>\<open>RequestException\<close> (with the given \<^verbatim>\<open>str\<close>) or
  returns a response. Only calls that complete are modelled: the script passes no timeout.
\<close>

datatype get_outcome = GetRaises string | GetReturns response

text \<open>The network answers the \<open>n\<close>-th request sent (counted from 0) with \<open>net n\<close>.\<close>

type_synonym network = "nat \<Rightarrow> get_outcome"

definition always :: "get_outcome \<Rightarrow> network" where
  "always out = (\<lambda>n. out)"

text \<open>
  What the program does to the outside: the URLs of the GET requests it has sent, and
  the lines that \<^verbatim>\<open>print\<close> has written to standard output, both in order.
\<close>

record world =
  requests_sent :: "string list"
  stdout :: "string list"

definition initial_world :: world where
  "initial_world = \<lparr>requests_sent = [], stdout = []\<rparr>"

definition requests_get :: "network \<Rightarrow> string \<Rightarrow> world \<Rightarrow> (pyexc + response) \<times> world" where
  "requests_get net u w =
     (case net (length (requests_sent w)) of
        GetRaises m \<Rightarrow> Inl (RequestException m)
      | GetReturns r \<Rightarrow> Inr r,
      w\<lparr>requests_sent := requests_sent w @ [u]\<rparr>)"

text \<open>
  \<^verbatim>\<open>Response.raise_for_status()\<close> raises \<^verbatim>\<open>HTTPError\<close> for a status code from 400 to 599
  and returns for every other code.
\<close>

definition raise_for_status :: "response \<Rightarrow> pyexc + unit" where
  "raise_for_status r =
     (if 400 \<le> status_code r \<and> status_code r < 500
      then Inl (HTTPError (str_nat (status_code r) @ '' Client Error: '' @ reason r
                           @ '' for url: '' @ resp_url r))
      else if 500 \<le> status_code r \<and> status_code r < 600
      then Inl (HTTPError (str_nat (status_code r) @ '' Server Error: '' @ reason r
                           @ '' for url: '' @ resp_url r))
      else Inr ())"

text \<open>
  \<^verbatim>\<open>Response.json()\<close>. From release 2.27 of the library on, a \<^verbatim>\<open>json.JSONDecodeError\<close> of the
  decoder is caught and raised again as \<^verbatim>\<open>requests.exceptions.JSONDecodeError\<close>, a
  \<^verbatim>\<open>RequestException\<close>; before, it propagates as it is. No release catches the decoder's
  \<^verbatim>\<open>RecursionError\<close> or plain \<^verbatim>\<open>ValueError\<close>. The script pins no release.
\<close>

datatype requests_lib = Requests_before_2_27 | Requests_from_2_27

definition response_json :: "requests_lib \<Rightarrow> response \<Rightarrow> pyexc + json" where
  "response_json lib r =
     (case content r of
        Decoded v \<Rightarrow> Inr v
      | Malformed m \<Rightarrow>
          (case lib of
             Requests_from_2_27 \<Rightarrow> Inl (RequestsJSONDecodeError m)
           | Requests_before_2_27 \<Rightarrow> Inl (JSONDecodeError m))
      | TooDeep m \<Rightarrow> Inl (RecursionError m)
      | IntTooLong m \<Rightarrow> Inl (ValueError m))"

section \<open>The script\<close>

definition url :: string where
  "url = ''https://api.freeapi.app/api/v1/public/randomusers''"

text \<open>
  The condition of line 60,
  \<^verbatim>\<open>data["success"] and "data" in data and "data" in data["data"]\<close>:
  \<^verbatim>\<open>and\<close> evaluates from the left and stops at the first operand that is false, and any
  operand may raise.
\<close>

definition envelope_ok :: "json \<Rightarrow> pyexc + bool" where
  "envelope_ok data =
     (case py_getitem data (KStr ''success'') of
        Inl e \<Rightarrow> Inl e
      | Inr s \<Rightarrow>
          if \<not> truthy s then Inr False
          else (case py_contains ''data'' data of
                  Inl e \<Rightarrow> Inl e
                | Inr present \<Rightarrow>
                    if \<not> present then Inr False
                    else (case py_getitem data (KStr ''data'') of
                            Inl e \<Rightarrow> Inl e
                          | Inr d \<Rightarrow> py_contains ''data'' d)))"

text \<open>Lines 62 to 65: the first record and its two fields.\<close>

definition extract_first :: "json \<Rightarrow> pyexc + json \<times> json" where
  "extract_first data =
     (case py_getitem data (KStr ''data'') of Inl e \<Rightarrow> Inl e | Inr d \<Rightarrow>
     (case py_getitem d (KStr ''data'') of Inl e \<Rightarrow> Inl e | Inr records \<Rightarrow>
     (case py_getitem records (KInt 0) of Inl e \<Rightarrow> Inl e | Inr user_data \<Rightarrow>
     (case py_getitem user_data (KStr ''login'') of Inl e \<Rightarrow> Inl e | Inr login \<Rightarrow>
     (case py_getitem login (KStr ''username'') of Inl e \<Rightarrow> Inl e | Inr username \<Rightarrow>
     (case py_getitem user_data (KStr ''location'') of Inl e \<Rightarrow> Inl e | Inr loc \<Rightarrow>
     (case py_getitem loc (KStr ''city'') of Inl e \<Rightarrow> Inl e | Inr location \<Rightarrow>
        Inr (username, location))))))))"

definition invalid_data_message :: string where
  "invalid_data_message = ''API request failed or returned invalid data''"

text \<open>Lines 59 to 67 of \<^verbatim>\<open>fetch_data_from_api\<close>: what is done with the decoded body.\<close>

definition validate_and_extract :: "json \<Rightarrow> pyexc + json \<times> json" where
  "validate_and_extract data =
     (case envelope_ok data of
        Inl e \<Rightarrow> Inl e
      | Inr ok \<Rightarrow> if ok then extract_first data else Inl (Exception invalid_data_message))"

text \<open>
  \<^verbatim>\<open>fetch_data_from_api()\<close>: the result is the exception raised (\<open>Inl\<close>) or the pair returned
  (\<open>Inr\<close>), together with the world after the call.
\<close>

definition fetch_data_from_api ::
    "requests_lib \<Rightarrow> network \<Rightarrow> world \<Rightarrow> (pyexc + json \<times> json) \<times> world" where
  "fetch_data_from_api lib net w =
     (case requests_get net url w of
        (Inl e, w') \<Rightarrow> (Inl e, w')
      | (Inr response, w') \<Rightarrow>
          (case raise_for_status response of
             Inl e \<Rightarrow> (Inl e, w')
           | Inr u \<Rightarrow>
               (case response_json lib response of
                  Inl e \<Rightarrow> (Inl e, w')
                | Inr data \<Rightarrow> (validate_and_extract data, w'))))"

text \<open>
  Standard output. Every codec encodes ASCII text; for any other text the terminal tells
  whether the codec of standard output refuses it (\<open>Some m\<close>, with \<open>m\<close> the \<^verbatim>\<open>str\<close> of the
  \<^verbatim>\<open>UnicodeEncodeError\<close> raised) or accepts it (\<open>None\<close>). Other failures of the stream are not
  modelled.
\<close>

type_synonym terminal = "string \<Rightarrow> string option"

definition is_ascii :: "string \<Rightarrow> bool" where
  "is_ascii s = list_all (\<lambda>c. (of_char c :: nat) < 128) s"

definition refusal :: "terminal \<Rightarrow> string \<Rightarrow> string option" where
  "refusal tty line = (if is_ascii line then None else tty line)"

definition printed :: "string \<Rightarrow> world \<Rightarrow> world" where
  "printed line w = w\<lparr>stdout := stdout w @ [line]\<rparr>"

text \<open>\<^verbatim>\<open>print(line)\<close>: the line is written, or nothing is written and the call raises.\<close>

definition print :: "terminal \<Rightarrow> string \<Rightarrow> world \<Rightarrow> pyexc + world" where
  "print tty line w =
     (case refusal tty line of
        None \<Rightarrow> Inr (printed line w)
      | Some m \<Rightarrow> Inl (UnicodeEncodeError m))"

text \<open>Lines 71 to 73, the body of the \<^verbatim>\<open>try\<close> statement of \<^verbatim>\<open>main()\<close>.\<close>

definition try_body ::
    "requests_lib \<Rightarrow> network \<Rightarrow> terminal \<Rightarrow> world \<Rightarrow> (pyexc + unit) \<times> world" where
  "try_body lib net tty w =
     (case fetch_data_from_api lib net w of
        (Inl e, w') \<Rightarrow> (Inl e, w')
      | (Inr (username, city), w') \<Rightarrow>
          (case print tty (''Username: '' @ py_str username @ '', City: '' @ py_str city) w' of
             Inl e \<Rightarrow> (Inl e, w')
           | Inr w'' \<Rightarrow> (Inr (), w'')))"

text \<open>
  The \<^verbatim>\<open>print\<close> call of an \<^verbatim>\<open>except\<close> clause: an exception it raises is not handled by the
  clauses of the same \<^verbatim>\<open>try\<close> statement and leaves \<^verbatim>\<open>main()\<close>.
\<close>

definition clause_print :: "terminal \<Rightarrow> string \<Rightarrow> world \<Rightarrow> pyexc option \<times> world" where
  "clause_print tty line w =
     (case print tty line w of Inl e \<Rightarrow> (Some e, w) | Inr w' \<Rightarrow> (None, w'))"

text \<open>
  \<^verbatim>\<open>main()\<close>: the first \<^verbatim>\<open>except\<close> clause whose class the exception is an instance of
  handles it. The first component of the result is the exception that leaves \<^verbatim>\<open>main\<close>, if
  any.
\<close>

definition main ::
    "requests_lib \<Rightarrow> network \<Rightarrow> terminal \<Rightarrow> world \<Rightarrow> pyexc option \<times> world" where
  "main lib net tty w =
     (case try_body lib net tty w of
        (Inr u, w') \<Rightarrow> (None, w')
      | (Inl e, w') \<Rightarrow>
          if is_RequestException e
          then clause_print tty (''Network error occurred: '' @ str_exc e) w'
          else if is_KeyError e
          then clause_print tty (''Error parsing API response: '' @ str_exc e) w'
          else if is_Exception e
          then clause_print tty (''An unexpected error occurred: '' @ str_exc e) w'
          else (Some e, w'))"

text \<open>
  Running the script: \<^verbatim>\<open>main()\<close> from the initial world. The exit status is 0 when
  \<^verbatim>\<open>main\<close> returns and 1 when an exception leaves it.
\<close>

definition program :: "requests_lib \<Rightarrow> network \<Rightarrow> terminal \<Rightarrow> nat \<times> string list" where
  "program lib net tty =
     (case main lib net tty initial_world of
        (None, w) \<Rightarrow> (0, stdout w)
      | (Some e, w) \<Rightarrow> (1, stdout w))"

section \<open>The response shape of the specification\<close>

text \<open>
  The specification describes the body by paths: \<open>success\<close>, \<open>data.data\<close>, the first
  record of \<open>data.data\<close>, and \<open>login.username\<close> and \<open>location.city\<close> of a record. These
  definitions follow its words, not the code: a member exists in a JSON object only, a
  first element in a non-empty JSON array only.
\<close>

fun member_of :: "string \<Rightarrow> json \<Rightarrow> json option" where
  "member_of k (JObj kvs) = map_of kvs k"
| "member_of k v = None"

fun first_of :: "json \<Rightarrow> json option" where
  "first_of (JArr (x # xs)) = Some x"
| "first_of v = None"

definition success_truthy :: "json \<Rightarrow> bool" where
  "success_truthy data =
     (case member_of ''success'' data of None \<Rightarrow> False | Some s \<Rightarrow> truthy s)"

definition records_of :: "json \<Rightarrow> json option" where
  "records_of data = Option.bind (member_of ''data'' data) (member_of ''data'')"

definition first_record :: "json \<Rightarrow> json option" where
  "first_record data = Option.bind (records_of data) first_of"

definition record_username :: "json \<Rightarrow> json option" where
  "record_username r = Option.bind (member_of ''login'' r) (member_of ''username'')"

definition record_city :: "json \<Rightarrow> json option" where
  "record_city r = Option.bind (member_of ''location'' r) (member_of ''city'')"

text \<open>
  The expected envelope: \<open>success\<close> truthy, \<open>data.data\<close> a non-empty array, and the first
  record holding \<open>login.username = u\<close> and \<open>location.city = c\<close>.
\<close>

definition expected_shape :: "json \<Rightarrow> json \<Rightarrow> json \<Rightarrow> bool" where
  "expected_shape data u c =
     (success_truthy data \<and>
      Option.bind (first_record data) record_username = Some u \<and>
      Option.bind (first_record data) record_city = Some c)"

text \<open>
  A container in which the test \<^verbatim>\<open>"data" in d\<close> is false: an object without that key, an
  array without that string, a string without that substring.
\<close>

fun lacks_data :: "json \<Rightarrow> bool" where
  "lacks_data (JObj kvs) = (map_of kvs ''data'' = None)"
| "lacks_data (JArr xs) = (JStr ''data'' \<notin> set xs)"
| "lacks_data (JStr s) = (\<not> has_substring ''data'' s)"
| "lacks_data v = False"

text \<open>A value that is null, a number or a boolean: the test \<^verbatim>\<open>"data" in d\<close> raises on it.\<close>

fun not_iterable :: "json \<Rightarrow> bool" where
  "not_iterable JNull = True"
| "not_iterable (JBool b) = True"
| "not_iterable (JInt i) = True"
| "not_iterable (JFloat f) = True"
| "not_iterable v = False"

fun is_object :: "json \<Rightarrow> bool" where
  "is_object (JObj kvs) = True"
| "is_object v = False"

text \<open>
  The text of the \<^verbatim>\<open>TypeError\<close> that CPython 3.11 raises for a string subscript of a
  value that is not an object.
\<close>

fun subscript_error :: "json \<Rightarrow> string" where
  "subscript_error (JArr xs) = ''list indices must be integers or slices, not str''"
| "subscript_error (JStr s) = ''string indices must be integers, not '' @ quoted ''str''"
| "subscript_error v = quoted (type_name v) @ '' object is not subscriptable''"

text \<open>The text of the \<^verbatim>\<open>HTTPError\<close> of \<^verbatim>\<open>raise_for_status\<close> for a status from 400 to 599.\<close>

definition http_error_message :: "response \<Rightarrow> string" where
  "http_error_message r =
     str_nat (status_code r)
     @ (if status_code r < 500 then '' Client Error: '' else '' Server Error: '')
     @ reason r @ '' for url: '' @ resp_url r"

text \<open>
  The line that the caller has for an outcome of the fetch, after section 4.2 of the
  specification: the pair on success, and a failure under the heading of its kind.
\<close>

fun report :: "pyexc + json \<times> json \<Rightarrow> string" where
  "report (Inr (username, city)) = ''Username: '' @ py_str username @ '', City: '' @ py_str city"
| "report (Inl e) =
     (if is_RequestException e then ''Network error occurred: ''
      else if is_KeyError e then ''Error parsing API response: ''
      else ''An unexpected error occurred: '') @ str_exc e"

text \<open>
  The next request is answered by a response whose status is not in 400 to 599 and whose
  body decodes to \<open>data\<close>.
\<close>

definition receives :: "network \<Rightarrow> world \<Rightarrow> json \<Rightarrow> bool" where
  "receives net w data =
     (case net (length (requests_sent w)) of
        GetRaises m \<Rightarrow> False
      | GetReturns r \<Rightarrow>
          \<not> (400 \<le> status_code r \<and> status_code r < 600) \<and> content r = Decoded data)"

text \<open>The world after one more GET request to the fixed URL.\<close>

definition request_sent :: "world \<Rightarrow> world" where
  "request_sent w = w\<lparr>requests_sent := requests_sent w @ [url]\<rparr>"

text \<open>The printed line \<open>s\<close> begins with \<open>p\<close>.\<close>

definition starts_with :: "string \<Rightarrow> string \<Rightarrow> bool" where
  "starts_with p s = (take (length p) s = p)"

subsection \<open>Concrete responses\<close>

definition record_of :: "json \<Rightarrow> json \<Rightarrow> json" where
  "record_of login loc = JObj [(''login'', login), (''location'', loc)]"

definition envelope_of :: "json list \<Rightarrow> json" where
  "envelope_of records = JObj [(''success'', JBool True), (''data'', JObj [(''data'', JArr records)])]"

text \<open>The canned body of the specification's end-to-end example.\<close>

definition canned_body :: json where
  "canned_body =
     envelope_of [record_of (JObj [(''username'', JStr ''jdoe'')]) (JObj [(''city'', JStr ''Paris'')])]"

definition ok_response :: "body \<Rightarrow> response" where
  "ok_response b = \<lparr>status_code = 200, reason = ''OK'', resp_url = url, content = b\<rparr>"

text \<open>\<^verbatim>\<open>{"success": true, "data": null}\<close>\<close>

definition null_wrapper_body :: json where
  "null_wrapper_body = JObj [(''success'', JBool True), (''data'', JNull)]"

text \<open>The canned body with \<open>success\<close> set to false.\<close>

definition unsuccessful_body :: json where
  "unsuccessful_body =
     JObj [(''success'', JBool False), (''data'', JObj [(''data'',
       JArr [record_of (JObj [(''username'', JStr ''jdoe'')]) (JObj [(''city'', JStr ''Paris'')])])])]"

text \<open>\<^verbatim>\<open>{"success": true, "data": {"data": []}}\<close>\<close>

definition empty_records_body :: json where
  "empty_records_body = envelope_of []"

text \<open>A first record with \<^verbatim>\<open>"login": null\<close>, and one without \<^verbatim>\<open>login\<close>.\<close>

definition null_login_body :: json where
  "null_login_body = envelope_of [record_of JNull (JObj [(''city'', JStr ''Paris'')])]"

definition no_login_body :: json where
  "no_login_body = envelope_of [JObj [(''location'', JObj [(''city'', JStr ''Paris'')])]]"

text \<open>The canned body without its \<open>success\<close> member.\<close>

definition no_success_body :: json where
  "no_success_body =
     JObj [(''data'', JObj [(''data'',
       JArr [record_of (JObj [(''username'', JStr ''jdoe'')]) (JObj [(''city'', JStr ''Paris'')])])])]"

text \<open>A response with status 300 and the canned body.\<close>

definition multiple_choices_response :: response where
  "multiple_choices_response =
     \<lparr>status_code = 300, reason = ''Multiple Choices'', resp_url = url,
      content = Decoded canned_body\<rparr>"

text \<open>The same response with status 404.\<close>

definition not_found_response :: response where
  "not_found_response =
     \<lparr>status_code = 404, reason = ''Not Found'', resp_url = url, content = Decoded canned_body\<rparr>"

text \<open>Responses with status 200 whose body the decoder rejects.\<close>

definition not_json_response :: response where
  "not_json_response = ok_response (Malformed ''Expecting value: line 1 column 1 (char 0)'')"

definition too_deep_response :: response where
  "too_deep_response = ok_response (TooDeep ''maximum recursion depth exceeded'')"

text \<open>\<^verbatim>\<open>{"success": true, "data": 5}\<close>\<close>

definition number_wrapper_body :: json where
  "number_wrapper_body = JObj [(''success'', JBool True), (''data'', JInt 5)]"

text \<open>A first record with \<^verbatim>\<open>"login": "jdoe"\<close>, and a first record that is a number.\<close>

definition string_login_body :: json where
  "string_login_body = envelope_of [record_of (JStr ''jdoe'') (JObj [(''city'', JStr ''Paris'')])]"

definition number_record_body :: json where
  "number_record_body = envelope_of [JInt 7]"

text \<open>The canned body with \<^verbatim>\<open>"city": null\<close>.\<close>

definition null_city_body :: json where
  "null_city_body =
     envelope_of [record_of (JObj [(''username'', JStr ''jdoe'')]) (JObj [(''city'', JNull)])]"

text \<open>The canned body with the username \<^verbatim>\<open>Zo\<close> followed by e with diaeresis.\<close>

definition accented_body :: json where
  "accented_body =
     envelope_of [record_of (JObj [(''username'', JStr (''Zo'' @ [CHR 0xEB]))])
                            (JObj [(''city'', JStr ''Paris'')])]"

subsection \<open>Concrete terminals and messages\<close>

text \<open>A standard output that encodes every text (UTF-8).\<close>

definition utf8_terminal :: terminal where
  "utf8_terminal line = None"

text \<open>
  A standard output with the ASCII codec: it refuses a text with a character above 127,
  and the error names the first run of such characters by its position.
\<close>

definition ascii_terminal :: terminal where
  "ascii_terminal line =
     (if is_ascii line then None
      else
        let before = takeWhile (\<lambda>c. (of_char c :: nat) < 128) line;
            run = takeWhile (\<lambda>c. \<not> (of_char c :: nat) < 128) (drop (length before) line);
            start = length before
        in Some (quoted ''ascii'' @ '' codec can't encode ''
                 @ (if length run = 1
                    then ''character ''
                         @ quoted ([CHR 0x5C, CHR ''x'', digit_char (of_char (hd run) div 16),
                                    digit_char (of_char (hd run) mod 16)])
                         @ '' in position '' @ str_nat start
                    else ''characters in position '' @ str_nat start @ ''-''
                         @ str_nat (start + length run - 1))
                 @ '': ordinal not in range(128)''))"

text \<open>An error text of the operating system in German, with u with diaeresis.\<close>

definition localized_message :: string where
  "localized_message = ''Verbindung verweigert, Zielcomputer nicht verf'' @ [CHR 0xFC] @ ''gbar''"

section \<open>The code against the shape\<close>

lemma getitem_str_Inr: "py_getitem v (KStr k) = Inr x \<longleftrightarrow> member_of k v = Some x"
  by (cases v) (auto split: option.splits)

lemma getitem_first:
  "py_getitem v (KInt 0) = Inr x \<Longrightarrow> first_of v = Some x \<or> (\<exists>s. x = JStr s)"
  by (cases v rule: first_of.cases) (auto simp: seq_index_def split: sum.splits list.splits if_splits)

lemma first_of_getitem:
  "first_of v = Some x \<Longrightarrow> py_getitem v (KInt 0) = Inr x"
  by (cases v rule: first_of.cases) (auto simp: seq_index_def)

lemma contains_True_member:
  "member_of k d = Some x \<Longrightarrow> py_contains k d = Inr True"
  by (cases d) auto

lemma envelope_ok_True:
  "envelope_ok data = Inr True \<longleftrightarrow>
     success_truthy data \<and>
     (\<exists>d. member_of ''data'' data = Some d \<and> py_contains ''data'' d = Inr True)"
  by (cases data)
     (auto simp: envelope_ok_def success_truthy_def split: sum.splits option.splits if_splits)

lemma extract_first_Inr:
  "extract_first data = Inr (u, c) \<longleftrightarrow>
     Option.bind (first_record data) record_username = Some u \<and>
     Option.bind (first_record data) record_city = Some c"
proof
  assume "extract_first data = Inr (u, c)"
  then obtain d records user_data login loc where
    g: "py_getitem data (KStr ''data'') = Inr d"
       "py_getitem d (KStr ''data'') = Inr records"
       "py_getitem records (KInt 0) = Inr user_data"
       "py_getitem user_data (KStr ''login'') = Inr login"
       "py_getitem login (KStr ''username'') = Inr u"
       "py_getitem user_data (KStr ''location'') = Inr loc"
       "py_getitem loc (KStr ''city'') = Inr c"
    unfolding extract_first_def by (auto split: sum.splits)
  from g(3,4) have "first_of records = Some user_data"
    using getitem_first by fastforce
  with g show "Option.bind (first_record data) record_username = Some u \<and>
     Option.bind (first_record data) record_city = Some c"
    by (simp add: getitem_str_Inr first_record_def records_of_def record_username_def
                  record_city_def)
next
  assume "Option.bind (first_record data) record_username = Some u \<and>
     Option.bind (first_record data) record_city = Some c"
  then obtain d records user_data login loc where
       "member_of ''data'' data = Some d"
       "member_of ''data'' d = Some records"
       "first_of records = Some user_data"
       "member_of ''login'' user_data = Some login"
       "member_of ''username'' login = Some u"
       "member_of ''location'' user_data = Some loc"
       "member_of ''city'' loc = Some c"
    by (auto simp: first_record_def records_of_def record_username_def record_city_def
             simp del: member_of.simps first_of.simps split: Option.bind_splits)
  then show "extract_first data = Inr (u, c)"
    unfolding extract_first_def
    by (simp add: getitem_str_Inr [symmetric] first_of_getitem del: py_getitem.simps)
qed

lemma validate_Inr:
  "validate_and_extract data = Inr (u, c) \<longleftrightarrow> expected_shape data u c"
proof
  assume "validate_and_extract data = Inr (u, c)"
  then have "envelope_ok data = Inr True" and "extract_first data = Inr (u, c)"
    unfolding validate_and_extract_def by (auto split: sum.splits if_splits)
  then show "expected_shape data u c"
    by (simp add: expected_shape_def envelope_ok_True extract_first_Inr)
next
  assume a: "expected_shape data u c"
  then obtain d records where
    "member_of ''data'' data = Some d" "member_of ''data'' d = Some records"
    by (auto simp: expected_shape_def first_record_def records_of_def
             simp del: member_of.simps split: Option.bind_splits)
  with a have "envelope_ok data = Inr True"
    by (auto simp: envelope_ok_True expected_shape_def contains_True_member
             simp del: member_of.simps)
  with a show "validate_and_extract data = Inr (u, c)"
    by (simp add: validate_and_extract_def extract_first_Inr expected_shape_def)
qed

lemma contains_False_lacks:
  "py_contains ''data'' d = Inr False \<longleftrightarrow> lacks_data d"
  by (cases d) simp_all

subsection \<open>The effects of a call\<close>

lemma fetch_world: "snd (fetch_data_from_api lib net w) = request_sent w"
  by (simp add: fetch_data_from_api_def requests_get_def request_sent_def
           split: sum.splits prod.splits)

lemma requests_get_returns:
  "net (length (requests_sent w)) = GetReturns r \<Longrightarrow>
   requests_get net u w = (Inr r, w\<lparr>requests_sent := requests_sent w @ [u]\<rparr>)"
  by (simp add: requests_get_def)

lemma requests_get_raises:
  "net (length (requests_sent w)) = GetRaises m \<Longrightarrow>
   requests_get net u w = (Inl (RequestException m), w\<lparr>requests_sent := requests_sent w @ [u]\<rparr>)"
  by (simp add: requests_get_def)

lemma raise_for_status_passes:
  "\<not> (400 \<le> status_code r \<and> status_code r < 600) \<Longrightarrow> raise_for_status r = Inr ()"
  unfolding raise_for_status_def by auto

lemma fetch_decoded:
  assumes "net (length (requests_sent w)) = GetReturns r"
    and "\<not> (400 \<le> status_code r \<and> status_code r < 600)"
    and "content r = Decoded data"
  shows "fst (fetch_data_from_api lib net w) = validate_and_extract data"
proof -
  have "response_json lib r = Inr data"
    using assms(3) by (simp add: response_json_def)
  then show ?thesis
    using requests_get_returns [of net w r url] assms(1) raise_for_status_passes [OF assms(2)]
    by (simp add: fetch_data_from_api_def)
qed

lemma fetch_received:
  assumes "receives net w data"
  shows "fst (fetch_data_from_api lib net w) = validate_and_extract data"
proof -
  from assms obtain r where "net (length (requests_sent w)) = GetReturns r"
    and "\<not> (400 \<le> status_code r \<and> status_code r < 600)" and "content r = Decoded data"
    unfolding receives_def by (cases "net (length (requests_sent w))") auto
  then show ?thesis by (rule fetch_decoded)
qed

lemma receives_ok_response: "receives (always (GetReturns (ok_response (Decoded d)))) w d"
  by (simp add: receives_def always_def ok_response_def)

lemma canned_shape: "expected_shape canned_body (JStr ''jdoe'') (JStr ''Paris'')"
  by (simp add: expected_shape_def success_truthy_def first_record_def records_of_def
        record_username_def record_city_def canned_body_def envelope_of_def record_of_def)

lemma program_main:
  "main lib net tty initial_world = (None, w) \<Longrightarrow> program lib net tty = (0, stdout w)"
  by (simp add: program_def)

lemma program_main_raises:
  "main lib net tty initial_world = (Some e, w) \<Longrightarrow> program lib net tty = (1, stdout w)"
  by (simp add: program_def)

lemma stdout_printed_initial: "stdout (printed line (request_sent initial_world)) = [line]"
  by (simp add: printed_def request_sent_def initial_world_def)

lemma stdout_request_sent_initial: "stdout (request_sent initial_world) = []"
  by (simp add: request_sent_def initial_world_def)

lemma repr_success: "repr_str ''success'' = quoted ''success''"
  by (simp add: repr_str_def repr_char_def printable_def quoted_def Let_def)

lemma repr_login: "repr_str ''login'' = quoted ''login''"
  by (simp add: repr_str_def repr_char_def printable_def quoted_def Let_def)

lemma repr_username: "repr_str ''username'' = quoted ''username''"
  by (simp add: repr_str_def repr_char_def printable_def quoted_def Let_def)

lemma envelope_ok_records:
  assumes "success_truthy data" and "records_of data = Some rs"
  shows "envelope_ok data = Inr True"
proof -
  from assms(2) obtain d where "member_of ''data'' data = Some d" "member_of ''data'' d = Some rs"
    by (auto simp: records_of_def simp del: member_of.simps split: Option.bind_splits)
  with assms(1) show ?thesis
    by (auto simp: envelope_ok_True contains_True_member simp del: member_of.simps)
qed

lemma validate_records:
  assumes "success_truthy data" and "records_of data = Some rs"
  shows "validate_and_extract data =
     (case py_getitem rs (KInt 0) of Inl e \<Rightarrow> Inl e | Inr user_data \<Rightarrow>
     (case py_getitem user_data (KStr ''login'') of Inl e \<Rightarrow> Inl e | Inr login \<Rightarrow>
     (case py_getitem login (KStr ''username'') of Inl e \<Rightarrow> Inl e | Inr username \<Rightarrow>
     (case py_getitem user_data (KStr ''location'') of Inl e \<Rightarrow> Inl e | Inr loc \<Rightarrow>
     (case py_getitem loc (KStr ''city'') of Inl e \<Rightarrow> Inl e | Inr location \<Rightarrow>
        Inr (username, location))))))"
proof -
  from assms(2) obtain d where "member_of ''data'' data = Some d" "member_of ''data'' d = Some rs"
    by (auto simp: records_of_def simp del: member_of.simps split: Option.bind_splits)
  then have "py_getitem data (KStr ''data'') = Inr d" "py_getitem d (KStr ''data'') = Inr rs"
    by (simp_all add: getitem_str_Inr del: member_of.simps)
  then show ?thesis
    using envelope_ok_records [OF assms]
    by (simp add: validate_and_extract_def extract_first_def)
qed

lemma validate_first_record:
  assumes "success_truthy data" and "first_record data = Some user_data"
  shows "validate_and_extract data =
     (case py_getitem user_data (KStr ''login'') of Inl e \<Rightarrow> Inl e | Inr login \<Rightarrow>
     (case py_getitem login (KStr ''username'') of Inl e \<Rightarrow> Inl e | Inr username \<Rightarrow>
     (case py_getitem user_data (KStr ''location'') of Inl e \<Rightarrow> Inl e | Inr loc \<Rightarrow>
     (case py_getitem loc (KStr ''city'') of Inl e \<Rightarrow> Inl e | Inr location \<Rightarrow>
        Inr (username, location)))))"
proof -
  from assms(2) obtain rs where rs: "records_of data = Some rs" "first_of rs = Some user_data"
    by (auto simp: first_record_def simp del: first_of.simps split: Option.bind_splits)
  from rs(2) have "py_getitem rs (KInt 0) = Inr user_data" by (rule first_of_getitem)
  then show ?thesis by (simp add: validate_records [OF assms(1) rs(1)])
qed

lemma fetch_raises:
  assumes "net (length (requests_sent w)) = GetRaises m"
  shows "fst (fetch_data_from_api lib net w) = Inl (RequestException m)"
  using requests_get_raises [of net w m url] assms by (simp add: fetch_data_from_api_def)

lemma raise_for_status_raises:
  "400 \<le> status_code r \<Longrightarrow> status_code r < 600 \<Longrightarrow>
   raise_for_status r = Inl (HTTPError (http_error_message r))"
  unfolding raise_for_status_def http_error_message_def by (cases "status_code r < 500") auto

lemma fetch_bad_status:
  assumes "net (length (requests_sent w)) = GetReturns r"
    and "400 \<le> status_code r" and "status_code r < 600"
  shows "fst (fetch_data_from_api lib net w) = Inl (HTTPError (http_error_message r))"
  using requests_get_returns [of net w r url] assms(1) raise_for_status_raises [OF assms(2,3)]
  by (simp add: fetch_data_from_api_def)

lemma fetch_json_raises:
  assumes "net (length (requests_sent w)) = GetReturns r"
    and "\<not> (400 \<le> status_code r \<and> status_code r < 600)"
    and "response_json lib r = Inl e"
  shows "fst (fetch_data_from_api lib net w) = Inl e"
  using requests_get_returns [of net w r url] assms(1,3) raise_for_status_passes [OF assms(2)]
  by (simp add: fetch_data_from_api_def)

lemma fetch_malformed:
  assumes "net (length (requests_sent w)) = GetReturns r"
    and "\<not> (400 \<le> status_code r \<and> status_code r < 600)"
    and "content r = Malformed m"
  shows "fst (fetch_data_from_api lib net w) =
           Inl (case lib of Requests_before_2_27 \<Rightarrow> JSONDecodeError m
                          | Requests_from_2_27 \<Rightarrow> RequestsJSONDecodeError m)"
proof -
  have "response_json lib r =
           Inl (case lib of Requests_before_2_27 \<Rightarrow> JSONDecodeError m
                          | Requests_from_2_27 \<Rightarrow> RequestsJSONDecodeError m)"
    using assms(3) by (cases lib) (simp_all add: response_json_def)
  with assms(1,2) show ?thesis by (rule fetch_json_raises)
qed

lemma fetch_too_deep:
  assumes "net (length (requests_sent w)) = GetReturns r"
    and "\<not> (400 \<le> status_code r \<and> status_code r < 600)"
    and "content r = TooDeep m"
  shows "fst (fetch_data_from_api lib net w) = Inl (RecursionError m)"
proof -
  have "response_json lib r = Inl (RecursionError m)"
    using assms(3) by (simp add: response_json_def)
  with assms(1,2) show ?thesis by (rule fetch_json_raises)
qed

lemma fetch_int_too_long:
  assumes "net (length (requests_sent w)) = GetReturns r"
    and "\<not> (400 \<le> status_code r \<and> status_code r < 600)"
    and "content r = IntTooLong m"
  shows "fst (fetch_data_from_api lib net w) = Inl (ValueError m)"
proof -
  have "response_json lib r = Inl (ValueError m)"
    using assms(3) by (simp add: response_json_def)
  with assms(1,2) show ?thesis by (rule fetch_json_raises)
qed

lemma fetch_Inr:
  assumes "fst (fetch_data_from_api lib net w) = Inr p"
  shows "\<exists>r data. net (length (requests_sent w)) = GetReturns r
           \<and> \<not> (400 \<le> status_code r \<and> status_code r < 600)
           \<and> content r = Decoded data \<and> validate_and_extract data = Inr p"
proof (cases "net (length (requests_sent w))")
  case (GetRaises m)
  with assms fetch_raises [of net w m lib] show ?thesis by simp
next
  case (GetReturns r)
  show ?thesis
  proof (cases "400 \<le> status_code r \<and> status_code r < 600")
    case True
    with fetch_bad_status [of net w r lib] GetReturns assms show ?thesis by auto
  next
    case False
    show ?thesis
    proof (cases "content r")
      case (Malformed m)
      with fetch_malformed [of net w r m lib] GetReturns False assms show ?thesis
        by (cases lib) simp_all
    next
      case (TooDeep m)
      with fetch_too_deep [of net w r m lib] GetReturns False assms show ?thesis by simp
    next
      case (IntTooLong m)
      with fetch_int_too_long [of net w r m lib] GetReturns False assms show ?thesis by simp
    next
      case (Decoded data)
      with fetch_decoded [of net w r data lib] False assms GetReturns show ?thesis
        by simp
    qed
  qed
qed

subsection \<open>What the caller prints\<close>

lemma is_ascii_append: "is_ascii (a @ b) \<longleftrightarrow> is_ascii a \<and> is_ascii b"
  by (simp add: is_ascii_def)

lemma is_ascii_quoted: "is_ascii (quoted s) \<longleftrightarrow> is_ascii s"
  by (simp add: is_ascii_def quoted_def)

lemma is_ascii_type_name: "is_ascii (type_name v)"
  by (cases v) (simp_all add: is_ascii_def)

lemma is_ascii_subscript_error: "is_ascii (subscript_error v)"
  using is_ascii_type_name [of v]
  by (cases v) (simp_all add: is_ascii_def quoted_def)

lemma refusal_ascii: "is_ascii line \<Longrightarrow> refusal tty line = None"
  by (simp add: refusal_def)

lemma try_body_raises:
  "fst (fetch_data_from_api lib net w) = Inl e \<Longrightarrow>
   try_body lib net tty w = (Inl e, request_sent w)"
  using fetch_world [of lib net w]
  by (cases "fetch_data_from_api lib net w") (simp add: try_body_def)

lemma try_body_returns:
  "fst (fetch_data_from_api lib net w) = Inr (u, c) \<Longrightarrow>
   try_body lib net tty w =
     (case print tty (''Username: '' @ py_str u @ '', City: '' @ py_str c) (request_sent w) of
        Inl e \<Rightarrow> (Inl e, request_sent w)
      | Inr w' \<Rightarrow> (Inr (), w'))"
  using fetch_world [of lib net w]
  by (cases "fetch_data_from_api lib net w") (simp add: try_body_def)

lemma main_handles:
  "try_body lib net tty w = (Inl e, w') \<Longrightarrow>
   main lib net tty w = clause_print tty (report (Inl e)) w'"
  by (simp add: main_def)

lemma main_accepted:
  assumes "refusal tty (report (fst (fetch_data_from_api lib net w))) = None"
  shows "main lib net tty w =
           (None, printed (report (fst (fetch_data_from_api lib net w))) (request_sent w))"
proof (cases "fst (fetch_data_from_api lib net w)")
  case (Inl e)
  from main_handles [OF try_body_raises [OF Inl]] assms Inl show ?thesis
    by (simp add: clause_print_def print_def)
next
  case (Inr p)
  obtain u c where p: "p = (u, c)" by (cases p)
  with Inr assms have "try_body lib net tty w = (Inr (), printed (report (Inr p)) (request_sent w))"
    by (simp add: try_body_returns print_def)
  with Inr show ?thesis by (simp add: main_def)
qed

lemma main_refused_failure:
  assumes "fst (fetch_data_from_api lib net w) = Inl e"
    and "refusal tty (report (Inl e)) = Some m"
  shows "main lib net tty w = (Some (UnicodeEncodeError m), request_sent w)"
  using main_handles [OF try_body_raises [OF assms(1)]] assms(2)
  by (simp add: clause_print_def print_def del: report.simps)

lemma main_refused_success:
  assumes "fst (fetch_data_from_api lib net w) = Inr p"
    and "refusal tty (report (Inr p)) = Some m"
  shows "main lib net tty w =
           clause_print tty (''An unexpected error occurred: '' @ m) (request_sent w)"
proof -
  obtain u c where p: "p = (u, c)" by (cases p)
  with assms have "try_body lib net tty w = (Inl (UnicodeEncodeError m), request_sent w)"
    by (simp add: try_body_returns print_def)
  from main_handles [OF this] show ?thesis by simp
qed

lemma main_ascii:
  assumes "fst (fetch_data_from_api lib net w) = out" and "is_ascii (report out)"
  shows "main lib net tty w = (None, printed (report out) (request_sent w))"
  using main_accepted [of tty lib net w] assms by (simp add: refusal_ascii)

lemma getitem_not_object:
  "\<not> is_object v \<Longrightarrow> py_getitem v (KStr k) = Inl (TypeError (subscript_error v))"
  by (cases v) simp_all

lemma is_ascii_Nil: "is_ascii []"
  by (simp add: is_ascii_def)

lemma is_ascii_Cons: "is_ascii (c # s) \<longleftrightarrow> (of_char c :: nat) < 128 \<and> is_ascii s"
  by (simp add: is_ascii_def)

lemma report_type_error_ascii: "is_ascii (report (Inl (TypeError (subscript_error v))))"
  by (simp add: is_ascii_Cons is_ascii_subscript_error)

lemma response_json_status:
  "response_json lib (r\<lparr>status_code := n\<rparr>) = response_json lib r"
  by (simp add: response_json_def)

lemma fetch_status_passes:
  assumes "net (length (requests_sent w)) = GetReturns r"
    and "\<not> (400 \<le> status_code r \<and> status_code r < 600)"
  shows "fetch_data_from_api lib net w =
           (case response_json lib r of
              Inl e \<Rightarrow> (Inl e, request_sent w)
            | Inr data \<Rightarrow> (validate_and_extract data, request_sent w))"
  using requests_get_returns [of net w r url] assms(1) raise_for_status_passes [OF assms(2)]
  by (simp add: fetch_data_from_api_def request_sent_def split: sum.splits)

lemma main_same_fetch:
  "fetch_data_from_api lib net w = fetch_data_from_api lib net' w' \<Longrightarrow>
   main lib net tty w = main lib net' tty w'"
  by (simp add: main_def try_body_def)

lemma http_error_message_not_found:
  "http_error_message not_found_response = ''404 Client Error: Not Found for url: '' @ url"
  by (simp add: http_error_message_def not_found_response_def digit_char_def)

lemma is_ascii_url: "is_ascii url"
  by (simp add: url_def is_ascii_def)

lemma null_city_shape: "expected_shape null_city_body (JStr ''jdoe'') JNull"
  by (simp add: expected_shape_def success_truthy_def first_record_def records_of_def
        record_username_def record_city_def null_city_body_def envelope_of_def record_of_def)

lemma clause_print_requests:
  "requests_sent (snd (clause_print tty line w)) = requests_sent w"
  by (simp add: clause_print_def print_def printed_def split: option.splits)

lemma main_requests_sent:
  "requests_sent (snd (main lib net tty w)) = requests_sent w @ [url]"
proof (cases "refusal tty (report (fst (fetch_data_from_api lib net w)))")
  case None
  from main_accepted [OF None] show ?thesis by (simp add: printed_def request_sent_def)
next
  case (Some m)
  show ?thesis
  proof (cases "fst (fetch_data_from_api lib net w)")
    case (Inl e)
    with Some main_refused_failure [of lib net w e tty m] show ?thesis
      by (simp add: request_sent_def)
  next
    case (Inr p)
    with Some main_refused_success [of lib net w p tty m] show ?thesis
      by (simp add: clause_print_requests request_sent_def)
  qed
qed

lemma refusal_localized:
  "refusal ascii_terminal (''Network error occurred: '' @ localized_message)
     = Some (quoted ''ascii'' @ '' codec can't encode character ''
             @ quoted ([CHR 0x5C] @ ''xfc'')
             @ '' in position 70: ordinal not in range(128)'')"
  by (simp add: refusal_def ascii_terminal_def is_ascii_def localized_message_def quoted_def
                digit_char_def Let_def)

lemma refusal_accented:
  "refusal ascii_terminal (''Username: '' @ ''Zo'' @ [CHR 0xEB] @ '', City: '' @ ''Paris'')
     = Some (quoted ''ascii'' @ '' codec can't encode character ''
             @ quoted ([CHR 0x5C] @ ''xeb'')
             @ '' in position 12: ordinal not in range(128)'')"
  by (simp add: refusal_def ascii_terminal_def is_ascii_def quoted_def digit_char_def Let_def)

lemma accented_shape: "expected_shape accented_body (JStr (''Zo'' @ [CHR 0xEB])) (JStr ''Paris'')"
  by (simp add: expected_shape_def success_truthy_def first_record_def records_of_def
        record_username_def record_city_def accented_body_def envelope_of_def record_of_def)

section \<open>The claims\<close>

text \<open>
  C1. When the response passes the status check and its decoded body has the expected
  shape (\<open>success\<close> truthy, \<open>data.data\<close> a non-empty array, the first record holding
  \<open>login.username\<close> and \<open>location.city\<close>), \<^verbatim>\<open>fetch_data_from_api()\<close> returns exactly the
  pair of these two values of the first record.
\<close>

theorem fetch_returns_first_record:
  assumes "receives net w data" and "expected_shape data u c"
  shows "fst (fetch_data_from_api lib net w) = Inr (u, c)"
  using assms by (simp add: fetch_received validate_Inr)

theorem fetch_returns_first_record_witness:
  "receives (always (GetReturns (ok_response (Decoded canned_body)))) initial_world canned_body
   \<and> expected_shape canned_body (JStr ''jdoe'') (JStr ''Paris'')
   \<and> fst (fetch_data_from_api Requests_from_2_27
             (always (GetReturns (ok_response (Decoded canned_body)))) initial_world)
       = Inr (JStr ''jdoe'', JStr ''Paris'')"
  using fetch_returns_first_record
          [of "always (GetReturns (ok_response (Decoded canned_body)))" initial_world
              canned_body "JStr ''jdoe''" "JStr ''Paris''" Requests_from_2_27]
        receives_ok_response [of canned_body initial_world] canned_shape
  by simp

text \<open>
  C2. When the first request is answered with a 2xx status and the canned body
  \<^verbatim>\<open>{"success": true, "data": {"data": [{"login": {"username": "jdoe"},
  "location": {"city": "Paris"}}]}}\<close>, the program prints exactly the one line
  \<^verbatim>\<open>Username: jdoe, City: Paris\<close> (and exits with status 0), whatever the codec of standard
  output.
\<close>

theorem canned_response_prints:
  assumes "net 0 = GetReturns r" and "200 \<le> status_code r" and "status_code r < 300"
    and "content r = Decoded canned_body"
  shows "program lib net tty = (0, [''Username: jdoe, City: Paris''])"
proof -
  have "receives net initial_world canned_body"
    using assms by (simp add: receives_def initial_world_def)
  then have "fst (fetch_data_from_api lib net initial_world) = Inr (JStr ''jdoe'', JStr ''Paris'')"
    using canned_shape by (simp add: fetch_received validate_Inr)
  moreover have "is_ascii (report (Inr (JStr ''jdoe'', JStr ''Paris'')))"
    by (simp add: py_str_def is_ascii_def)
  ultimately have "main lib net tty initial_world =
      (None, printed (report (Inr (JStr ''jdoe'', JStr ''Paris''))) (request_sent initial_world))"
    by (rule main_ascii)
  then have "program lib net tty = (0, [report (Inr (JStr ''jdoe'', JStr ''Paris''))])"
    by (simp add: program_main stdout_printed_initial del: report.simps)
  then show ?thesis by (simp add: py_str_def)
qed

theorem canned_response_prints_witness:
  "200 \<le> status_code (ok_response (Decoded canned_body))
   \<and> status_code (ok_response (Decoded canned_body)) < 300
   \<and> program Requests_from_2_27 (always (GetReturns (ok_response (Decoded canned_body))))
         ascii_terminal
       = (0, [''Username: jdoe, City: Paris''])"
  using canned_response_prints [of "always (GetReturns (ok_response (Decoded canned_body)))"
          "ok_response (Decoded canned_body)" Requests_from_2_27 ascii_terminal]
  by (simp add: always_def ok_response_def)

text \<open>
  C3, as stated: whenever \<open>success\<close> is false, or \<open>success\<close> is truthy and the nested key
  \<open>data.data\<close> is absent, the call fails with the exception whose message is
  \<^verbatim>\<open>API request failed or returned invalid data\<close>. This fails for the body
  \<^verbatim>\<open>{"success": true, "data": null}\<close>: the membership test \<^verbatim>\<open>"data" in data["data"]\<close> itself
  raises \<^verbatim>\<open>TypeError\<close>, with another message.
\<close>

theorem null_wrapper_counterexample:
  "success_truthy null_wrapper_body
   \<and> records_of null_wrapper_body = None
   \<and> fst (fetch_data_from_api Requests_from_2_27
            (always (GetReturns (ok_response (Decoded null_wrapper_body)))) initial_world)
      = Inl (TypeError ''argument of type 'NoneType' is not iterable'')
   \<and> fst (fetch_data_from_api Requests_from_2_27
            (always (GetReturns (ok_response (Decoded null_wrapper_body)))) initial_world)
      \<noteq> Inl (Exception invalid_data_message)"
proof -
  have "validate_and_extract null_wrapper_body
          = Inl (TypeError ''argument of type 'NoneType' is not iterable'')"
    by (simp add: validate_and_extract_def envelope_ok_def null_wrapper_body_def quoted_def)
  then have "fst (fetch_data_from_api Requests_from_2_27
            (always (GetReturns (ok_response (Decoded null_wrapper_body)))) initial_world)
      = Inl (TypeError ''argument of type 'NoneType' is not iterable'')"
    using receives_ok_response [of null_wrapper_body initial_world]
    by (simp add: fetch_received)
  then show ?thesis
    by (simp add: success_truthy_def records_of_def null_wrapper_body_def)
qed

text \<open>
  C3, amended: let the decoded body be an object with a \<open>success\<close> member. The call fails
  with the exception whose message is \<^verbatim>\<open>API request failed or returned invalid data\<close>
  whenever \<open>success\<close> is falsy (whatever else the body holds), or the top-level \<open>data\<close> key
  is absent, or the value of \<open>data\<close> is an object without the key \<open>data\<close> (or an array
  without the element \<^verbatim>\<open>"data"\<close>, or a string without the substring \<^verbatim>\<open>data\<close>). When
  \<open>success\<close> is truthy and the value of \<open>data\<close> is null, a number or a boolean, the call
  fails with the \<^verbatim>\<open>TypeError\<close> of the membership test instead, whose message is
  \<^verbatim>\<open>argument of type 'T' is not iterable\<close> for the type \<open>T\<close> of that value.
\<close>

theorem invalid_envelope_is_logic_error:
  assumes "receives net w data" and "member_of ''success'' data = Some s"
  shows "(\<not> truthy s \<or> member_of ''data'' data = None
            \<or> (\<exists>d. member_of ''data'' data = Some d \<and> lacks_data d)
          \<longrightarrow> fst (fetch_data_from_api lib net w) = Inl (Exception invalid_data_message))
       \<and> (\<forall>d. truthy s \<and> member_of ''data'' data = Some d \<and> not_iterable d
          \<longrightarrow> fst (fetch_data_from_api lib net w)
                = Inl (TypeError (''argument of type '' @ quoted (type_name d)
                                  @ '' is not iterable'')))"
proof -
  from assms(2) obtain kvs where kvs: "data = JObj kvs" "map_of kvs ''success'' = Some s"
    by (cases data) auto
  have f: "fst (fetch_data_from_api lib net w) = validate_and_extract data"
    using assms(1) by (rule fetch_received)
  have logic: "validate_and_extract data = Inl (Exception invalid_data_message)"
    if a: "\<not> truthy s \<or> member_of ''data'' data = None
            \<or> (\<exists>d. member_of ''data'' data = Some d \<and> lacks_data d)"
  proof -
    have "envelope_ok data = Inr False"
    proof (cases "truthy s")
      case False
      with kvs show ?thesis by (simp add: envelope_ok_def)
    next
      case True
      show ?thesis
      proof (cases "map_of kvs ''data''")
        case None
        with kvs True show ?thesis by (simp add: envelope_ok_def)
      next
        case (Some d)
        with a kvs True have "lacks_data d" by simp
        then have "py_contains ''data'' d = Inr False" by (simp only: contains_False_lacks)
        with kvs True Some show ?thesis by (simp add: envelope_ok_def)
      qed
    qed
    then show ?thesis by (simp add: validate_and_extract_def)
  qed
  have type: "validate_and_extract data
                = Inl (TypeError (''argument of type '' @ quoted (type_name d)
                                  @ '' is not iterable''))"
    if a: "truthy s" "member_of ''data'' data = Some d" "not_iterable d" for d
  proof -
    from a(3) have "py_contains ''data'' d
        = Inl (TypeError (''argument of type '' @ quoted (type_name d) @ '' is not iterable''))"
      by (cases d) simp_all
    with kvs a(1,2) have "envelope_ok data
        = Inl (TypeError (''argument of type '' @ quoted (type_name d) @ '' is not iterable''))"
      by (simp add: envelope_ok_def)
    then show ?thesis by (simp add: validate_and_extract_def)
  qed
  from logic type f show ?thesis by simp
qed

theorem invalid_envelope_is_logic_error_witness:
  "receives (always (GetReturns (ok_response (Decoded unsuccessful_body)))) initial_world
     unsuccessful_body
   \<and> member_of ''success'' unsuccessful_body = Some (JBool False)
   \<and> \<not> truthy (JBool False)
   \<and> fst (fetch_data_from_api Requests_from_2_27
            (always (GetReturns (ok_response (Decoded unsuccessful_body)))) initial_world)
      = Inl (Exception ''API request failed or returned invalid data'')
   \<and> member_of ''success'' number_wrapper_body = Some (JBool True)
   \<and> member_of ''data'' number_wrapper_body = Some (JInt 5)
   \<and> not_iterable (JInt 5)
   \<and> fst (fetch_data_from_api Requests_from_2_27
            (always (GetReturns (ok_response (Decoded number_wrapper_body)))) initial_world)
      = Inl (TypeError ''argument of type 'int' is not iterable'')"
  using invalid_envelope_is_logic_error
          [of "always (GetReturns (ok_response (Decoded unsuccessful_body)))" initial_world
              unsuccessful_body "JBool False" Requests_from_2_27]
        invalid_envelope_is_logic_error
          [of "always (GetReturns (ok_response (Decoded number_wrapper_body)))" initial_world
              number_wrapper_body "JBool True" Requests_from_2_27]
        receives_ok_response [of unsuccessful_body initial_world]
        receives_ok_response [of number_wrapper_body initial_world]
  by (simp add: unsuccessful_body_def number_wrapper_body_def invalid_data_message_def
                quoted_def)

text \<open>
  C4, as stated: with a valid envelope whose \<open>data.data\<close> is an empty array the call fails
  with a missing-field error and the caller prints a line beginning with
  \<^verbatim>\<open>Error parsing API response:\<close>. The subscript \<^verbatim>\<open>[0]\<close> of an empty list raises
  \<^verbatim>\<open>IndexError\<close>, which is not a \<^verbatim>\<open>KeyError\<close>: the caller's last clause handles it and the
  line printed begins with \<^verbatim>\<open>An unexpected error occurred:\<close>.
\<close>

theorem empty_records_counterexample:
  "success_truthy empty_records_body
   \<and> records_of empty_records_body = Some (JArr [])
   \<and> fst (fetch_data_from_api Requests_from_2_27
            (always (GetReturns (ok_response (Decoded empty_records_body)))) initial_world)
      = Inl (IndexError ''list index out of range'')
   \<and> \<not> is_KeyError (IndexError ''list index out of range'')
   \<and> program Requests_from_2_27 (always (GetReturns (ok_response (Decoded empty_records_body))))
        utf8_terminal
      = (0, [''An unexpected error occurred: list index out of range''])
   \<and> \<not> starts_with ''Error parsing API response:''
          ''An unexpected error occurred: list index out of range''"
proof -
  have s: "success_truthy empty_records_body" and r: "records_of empty_records_body = Some (JArr [])"
    by (simp_all add: empty_records_body_def envelope_of_def success_truthy_def records_of_def)
  have "validate_and_extract empty_records_body = Inl (IndexError ''list index out of range'')"
    by (simp add: validate_records [OF s r] seq_index_def)
  then have f: "fst (fetch_data_from_api Requests_from_2_27
            (always (GetReturns (ok_response (Decoded empty_records_body)))) initial_world)
      = Inl (IndexError ''list index out of range'')"
    using receives_ok_response [of empty_records_body initial_world]
    by (simp add: fetch_received)
  have "is_ascii (report (Inl (IndexError ''list index out of range'')))"
    by (simp add: is_ascii_def)
  from main_ascii [OF f this, of utf8_terminal]
  have "program Requests_from_2_27 (always (GetReturns (ok_response (Decoded empty_records_body))))
          utf8_terminal
      = (0, [''An unexpected error occurred: list index out of range''])"
    by (simp add: program_main stdout_printed_initial)
  with s r f show ?thesis by (simp add: starts_with_def)
qed

text \<open>
  C4, amended: with a valid envelope (\<open>success\<close> truthy, \<open>data.data\<close> present) whose
  \<open>data.data\<close> is an empty array, the call fails with \<^verbatim>\<open>IndexError\<close> (list index out of
  range) and the caller prints \<^verbatim>\<open>An unexpected error occurred: list index out of range\<close>.
\<close>

theorem empty_records_is_index_error:
  assumes "receives net w data" and "success_truthy data" and "records_of data = Some (JArr [])"
  shows "fst (fetch_data_from_api lib net w) = Inl (IndexError ''list index out of range'')
       \<and> main lib net tty w =
           (None, printed ''An unexpected error occurred: list index out of range''
                    (request_sent w))"
proof -
  have "validate_and_extract data = Inl (IndexError ''list index out of range'')"
    by (simp add: validate_records [OF assms(2,3)] seq_index_def)
  with assms(1) have f: "fst (fetch_data_from_api lib net w) = Inl (IndexError ''list index out of range'')"
    by (simp add: fetch_received)
  have "is_ascii (report (Inl (IndexError ''list index out of range'')))"
    by (simp add: is_ascii_def)
  from main_ascii [OF f this, of tty] f show ?thesis by simp
qed

theorem empty_records_is_index_error_witness:
  "receives (always (GetReturns (ok_response (Decoded empty_records_body)))) initial_world
     empty_records_body
   \<and> success_truthy empty_records_body
   \<and> records_of empty_records_body = Some (JArr [])
   \<and> fst (fetch_data_from_api Requests_from_2_27
            (always (GetReturns (ok_response (Decoded empty_records_body)))) initial_world)
      = Inl (IndexError ''list index out of range'')
   \<and> main Requests_from_2_27
         (always (GetReturns (ok_response (Decoded empty_records_body)))) ascii_terminal
         initial_world
      = (None, printed ''An unexpected error occurred: list index out of range''
                 (request_sent initial_world))"
  using empty_records_is_index_error
          [of "always (GetReturns (ok_response (Decoded empty_records_body)))" initial_world
              empty_records_body Requests_from_2_27 ascii_terminal]
        receives_ok_response [of empty_records_body initial_world]
  by (simp add: empty_records_body_def envelope_of_def success_truthy_def records_of_def)

text \<open>
  C5, as stated: with a valid envelope and a non-empty \<open>data.data\<close> whose first record
  lacks \<open>login.username\<close>, the call fails with a missing-key error naming the key and the
  caller prints \<^verbatim>\<open>Error parsing API response: ...\<close>. This fails for a first record with
  \<^verbatim>\<open>"login": null\<close>: it has no \<open>login.username\<close>, the subscript \<^verbatim>\<open>["username"]\<close> of \<^verbatim>\<open>None\<close>
  raises \<^verbatim>\<open>TypeError\<close>, and the caller prints a line beginning with
  \<^verbatim>\<open>An unexpected error occurred:\<close>.
\<close>

theorem null_login_counterexample:
  "success_truthy null_login_body
   \<and> first_record null_login_body = Some (record_of JNull (JObj [(''city'', JStr ''Paris'')]))
   \<and> record_username (record_of JNull (JObj [(''city'', JStr ''Paris'')])) = None
   \<and> fst (fetch_data_from_api Requests_from_2_27
            (always (GetReturns (ok_response (Decoded null_login_body)))) initial_world)
      = Inl (TypeError (quoted ''NoneType'' @ '' object is not subscriptable''))
   \<and> \<not> is_KeyError (TypeError (quoted ''NoneType'' @ '' object is not subscriptable''))
   \<and> program Requests_from_2_27 (always (GetReturns (ok_response (Decoded null_login_body))))
        utf8_terminal
      = (0, [''An unexpected error occurred: '' @ quoted ''NoneType''
               @ '' object is not subscriptable''])
   \<and> \<not> starts_with ''Error parsing API response:''
          (''An unexpected error occurred: '' @ quoted ''NoneType''
             @ '' object is not subscriptable'')"
proof -
  have s: "success_truthy null_login_body"
    and r: "first_record null_login_body = Some (record_of JNull (JObj [(''city'', JStr ''Paris'')]))"
    by (simp_all add: null_login_body_def envelope_of_def success_truthy_def records_of_def
                      first_record_def)
  have "validate_and_extract null_login_body
          = Inl (TypeError (subscript_error JNull))"
    by (simp add: validate_first_record [OF s r] record_of_def)
  then have f: "fst (fetch_data_from_api Requests_from_2_27
            (always (GetReturns (ok_response (Decoded null_login_body)))) initial_world)
      = Inl (TypeError (subscript_error JNull))"
    using receives_ok_response [of null_login_body initial_world]
    by (simp add: fetch_received)
  from main_ascii [OF f report_type_error_ascii, of utf8_terminal]
  have "program Requests_from_2_27 (always (GetReturns (ok_response (Decoded null_login_body))))
          utf8_terminal
      = (0, [''An unexpected error occurred: '' @ quoted ''NoneType''
               @ '' object is not subscriptable''])"
    by (simp add: program_main stdout_printed_initial)
  with s r f show ?thesis
    by (simp add: starts_with_def record_username_def record_of_def)
qed

text \<open>
  C5, amended: take a valid envelope with a non-empty array \<open>data.data\<close>. If the first
  record is an object without a \<open>login\<close> member, or its \<open>login\<close> is an object without
  \<open>username\<close>, the call fails with \<^verbatim>\<open>KeyError\<close> of the missing key (\<open>login\<close>, respectively
  \<open>username\<close>) and the caller prints \<^verbatim>\<open>Error parsing API response: 'login'\<close>, respectively
  \<^verbatim>\<open>'username'\<close>. If the first record is not an object, or its \<open>login\<close> is present and not
  an object, the call fails with the \<^verbatim>\<open>TypeError\<close> of the subscript on that value and
  the caller prints \<^verbatim>\<open>An unexpected error occurred: \<close> followed by the text of that error.
\<close>

theorem missing_login_field_is_key_error:
  assumes "receives net w data" and "success_truthy data" and "first_record data = Some user"
  shows "(is_object user \<and> member_of ''login'' user = None
          \<longrightarrow> fst (fetch_data_from_api lib net w) = Inl (KeyError (KStr ''login''))
              \<and> main lib net tty w =
                  (None, printed (''Error parsing API response: '' @ quoted ''login'')
                           (request_sent w)))
       \<and> (\<forall>l. member_of ''login'' user = Some (JObj l) \<and> map_of l ''username'' = None
          \<longrightarrow> fst (fetch_data_from_api lib net w) = Inl (KeyError (KStr ''username''))
              \<and> main lib net tty w =
                  (None, printed (''Error parsing API response: '' @ quoted ''username'')
                           (request_sent w)))
       \<and> (\<not> is_object user
          \<longrightarrow> fst (fetch_data_from_api lib net w) = Inl (TypeError (subscript_error user))
              \<and> main lib net tty w =
                  (None, printed (''An unexpected error occurred: '' @ subscript_error user)
                           (request_sent w)))
       \<and> (\<forall>login. member_of ''login'' user = Some login \<and> \<not> is_object login
          \<longrightarrow> fst (fetch_data_from_api lib net w) = Inl (TypeError (subscript_error login))
              \<and> main lib net tty w =
                  (None, printed (''An unexpected error occurred: '' @ subscript_error login)
                           (request_sent w)))"
proof -
  have f: "fst (fetch_data_from_api lib net w) = validate_and_extract data"
    using assms(1) by (rule fetch_received)
  note v = validate_first_record [OF assms(2,3)]
  have key: "fst (fetch_data_from_api lib net w) = Inl (KeyError (KStr k))
              \<and> main lib net tty w =
                  (None, printed (''Error parsing API response: '' @ quoted k) (request_sent w))"
    if "validate_and_extract data = Inl (KeyError (KStr k))" "repr_str k = quoted k" "is_ascii k"
    for k
  proof -
    from that(1) f have e: "fst (fetch_data_from_api lib net w) = Inl (KeyError (KStr k))" by simp
    have "is_ascii (report (Inl (KeyError (KStr k))))"
      using that(2,3) by (simp add: is_ascii_Cons is_ascii_quoted)
    from main_ascii [OF e this, of tty] e that(2) show ?thesis by simp
  qed
  have type: "fst (fetch_data_from_api lib net w) = Inl (TypeError (subscript_error x))
              \<and> main lib net tty w =
                  (None, printed (''An unexpected error occurred: '' @ subscript_error x)
                           (request_sent w))"
    if "validate_and_extract data = Inl (TypeError (subscript_error x))" for x
  proof -
    from that f have e: "fst (fetch_data_from_api lib net w) = Inl (TypeError (subscript_error x))"
      by simp
    from main_ascii [OF e report_type_error_ascii, of tty] e show ?thesis by simp
  qed
  have 1: "validate_and_extract data = Inl (KeyError (KStr ''login''))"
    if "is_object user" "member_of ''login'' user = None"
    using that by (cases user) (simp_all add: v)
  have 2: "validate_and_extract data = Inl (KeyError (KStr ''username''))"
    if "member_of ''login'' user = Some (JObj l)" "map_of l ''username'' = None" for l
    using that by (cases user) (simp_all add: v)
  have 3: "validate_and_extract data = Inl (TypeError (subscript_error user))"
    if "\<not> is_object user"
    using that by (simp add: v getitem_not_object)
  have 4: "validate_and_extract data = Inl (TypeError (subscript_error login))"
    if "member_of ''login'' user = Some login" "\<not> is_object login" for login
  proof -
    from that(1) have "py_getitem user (KStr ''login'') = Inr login"
      by (simp add: getitem_str_Inr)
    with that(2) show ?thesis by (simp add: v getitem_not_object)
  qed
  have a1: "is_ascii ''login''" and a2: "is_ascii ''username''"
    by (simp_all add: is_ascii_def)
  from key [OF 1 repr_login a1] key [OF 2 repr_username a2] type [OF 3] type [OF 4]
  show ?thesis by blast
qed

theorem missing_login_field_is_key_error_witness:
  "receives (always (GetReturns (ok_response (Decoded no_login_body)))) initial_world no_login_body
   \<and> success_truthy no_login_body
   \<and> first_record no_login_body = Some (JObj [(''location'', JObj [(''city'', JStr ''Paris'')])])
   \<and> fst (fetch_data_from_api Requests_from_2_27
            (always (GetReturns (ok_response (Decoded no_login_body)))) initial_world)
      = Inl (KeyError (KStr ''login''))
   \<and> main Requests_from_2_27
         (always (GetReturns (ok_response (Decoded no_login_body)))) ascii_terminal initial_world
      = (None, printed (''Error parsing API response: '' @ quoted ''login'')
                 (request_sent initial_world))
   \<and> first_record string_login_body
        = Some (record_of (JStr ''jdoe'') (JObj [(''city'', JStr ''Paris'')]))
   \<and> fst (fetch_data_from_api Requests_from_2_27
            (always (GetReturns (ok_response (Decoded string_login_body)))) initial_world)
      = Inl (TypeError (''string indices must be integers, not '' @ quoted ''str''))
   \<and> first_record number_record_body = Some (JInt 7)
   \<and> main Requests_from_2_27
         (always (GetReturns (ok_response (Decoded number_record_body)))) ascii_terminal
         initial_world
      = (None, printed (''An unexpected error occurred: '' @ quoted ''int''
                          @ '' object is not subscriptable'') (request_sent initial_world))"
  using missing_login_field_is_key_error
          [of "always (GetReturns (ok_response (Decoded no_login_body)))" initial_world
              no_login_body "JObj [(''location'', JObj [(''city'', JStr ''Paris'')])]"
              Requests_from_2_27 ascii_terminal]
        missing_login_field_is_key_error
          [of "always (GetReturns (ok_response (Decoded string_login_body)))" initial_world
              string_login_body "record_of (JStr ''jdoe'') (JObj [(''city'', JStr ''Paris'')])"
              Requests_from_2_27 ascii_terminal]
        missing_login_field_is_key_error
          [of "always (GetReturns (ok_response (Decoded number_record_body)))" initial_world
              number_record_body "JInt 7" Requests_from_2_27 ascii_terminal]
        receives_ok_response [of no_login_body initial_world]
        receives_ok_response [of string_login_body initial_world]
        receives_ok_response [of number_record_body initial_world]
  by (simp add: no_login_body_def string_login_body_def number_record_body_def envelope_of_def
                record_of_def success_truthy_def records_of_def first_record_def)

text \<open>
  C6, as stated: every transport failure and every response with a status outside 2xx
  makes the call fail with a \<^verbatim>\<open>RequestException\<close>, reported as a network error. The status
  part fails: \<^verbatim>\<open>raise_for_status()\<close> raises for 400 to 599 only, so a response with status
  300 and the canned body is processed like a successful one.
\<close>

theorem multiple_choices_counterexample:
  "\<not> (200 \<le> status_code multiple_choices_response \<and> status_code multiple_choices_response < 300)
   \<and> fst (fetch_data_from_api Requests_from_2_27 (always (GetReturns multiple_choices_response))
            initial_world) = Inr (JStr ''jdoe'', JStr ''Paris'')
   \<and> program Requests_from_2_27 (always (GetReturns multiple_choices_response)) utf8_terminal
      = (0, [''Username: jdoe, City: Paris''])"
proof -
  have f: "fst (fetch_data_from_api Requests_from_2_27
             (always (GetReturns multiple_choices_response)) initial_world)
        = Inr (JStr ''jdoe'', JStr ''Paris'')"
    using fetch_decoded [of "always (GetReturns multiple_choices_response)" initial_world
            multiple_choices_response canned_body Requests_from_2_27] canned_shape
    by (simp add: always_def multiple_choices_response_def validate_Inr)
  have "is_ascii (report (Inr (JStr ''jdoe'', JStr ''Paris'')))"
    by (simp add: py_str_def is_ascii_def)
  from main_ascii [OF f this, of utf8_terminal] f show ?thesis
    by (simp add: program_main stdout_printed_initial py_str_def multiple_choices_response_def)
qed

text \<open>
  C6, amended: when \<^verbatim>\<open>requests.get\<close> raises (connection failure, DNS failure, timeout), the
  call fails with that \<^verbatim>\<open>RequestException\<close>; when the response has a status from 400 to
  599, it fails with the \<^verbatim>\<open>HTTPError\<close> of \<^verbatim>\<open>raise_for_status\<close>, whose text names the status,
  the reason and the URL. In both cases the caller prints \<^verbatim>\<open>Network error occurred: \<close>
  followed by the text of the exception, provided standard output accepts that line. A
  response with any other status is not a failure: the call and the caller do exactly
  what they do for the same response with status 200.
\<close>

theorem network_failure_is_reported:
  "(\<forall>m. net (length (requests_sent w)) = GetRaises m
      \<longrightarrow> fst (fetch_data_from_api lib net w) = Inl (RequestException m)
          \<and> (refusal tty (''Network error occurred: '' @ m) = None
              \<longrightarrow> main lib net tty w =
                    (None, printed (''Network error occurred: '' @ m) (request_sent w))))
   \<and> (\<forall>r. net (length (requests_sent w)) = GetReturns r
           \<and> 400 \<le> status_code r \<and> status_code r < 600
      \<longrightarrow> fst (fetch_data_from_api lib net w) = Inl (HTTPError (http_error_message r))
          \<and> (refusal tty (''Network error occurred: '' @ http_error_message r) = None
              \<longrightarrow> main lib net tty w =
                    (None, printed (''Network error occurred: '' @ http_error_message r)
                             (request_sent w))))
   \<and> (\<forall>r. net (length (requests_sent w)) = GetReturns r
           \<and> \<not> (400 \<le> status_code r \<and> status_code r < 600)
      \<longrightarrow> fetch_data_from_api lib net w
            = fetch_data_from_api lib (always (GetReturns (r\<lparr>status_code := 200\<rparr>))) w
          \<and> main lib net tty w
            = main lib (always (GetReturns (r\<lparr>status_code := 200\<rparr>))) tty w)"
proof -
  have 1: "fst (fetch_data_from_api lib net w) = Inl (RequestException m)
          \<and> (refusal tty (''Network error occurred: '' @ m) = None
              \<longrightarrow> main lib net tty w =
                    (None, printed (''Network error occurred: '' @ m) (request_sent w)))"
    if a: "net (length (requests_sent w)) = GetRaises m" for m
  proof -
    from fetch_raises [of net w m lib] a
    have e: "fst (fetch_data_from_api lib net w) = Inl (RequestException m)" by simp
    with main_accepted [of tty lib net w] show ?thesis by simp
  qed
  have 2: "fst (fetch_data_from_api lib net w) = Inl (HTTPError (http_error_message r))
          \<and> (refusal tty (''Network error occurred: '' @ http_error_message r) = None
              \<longrightarrow> main lib net tty w =
                    (None, printed (''Network error occurred: '' @ http_error_message r)
                             (request_sent w)))"
    if a: "net (length (requests_sent w)) = GetReturns r" "400 \<le> status_code r"
      "status_code r < 600" for r
  proof -
    from fetch_bad_status [of net w r lib] a
    have e: "fst (fetch_data_from_api lib net w) = Inl (HTTPError (http_error_message r))"
      by simp
    with main_accepted [of tty lib net w] show ?thesis by simp
  qed
  have 3: "fetch_data_from_api lib net w
            = fetch_data_from_api lib (always (GetReturns (r\<lparr>status_code := 200\<rparr>))) w
          \<and> main lib net tty w
            = main lib (always (GetReturns (r\<lparr>status_code := 200\<rparr>))) tty w"
    if a: "net (length (requests_sent w)) = GetReturns r"
      "\<not> (400 \<le> status_code r \<and> status_code r < 600)" for r
  proof -
    have "fetch_data_from_api lib (always (GetReturns (r\<lparr>status_code := 200\<rparr>))) w =
           (case response_json lib r of
              Inl e \<Rightarrow> (Inl e, request_sent w)
            | Inr data \<Rightarrow> (validate_and_extract data, request_sent w))"
      using fetch_status_passes
              [of "always (GetReturns (r\<lparr>status_code := 200\<rparr>))" w
                  "r\<lparr>status_code := 200\<rparr>" lib]
      by (simp add: always_def response_json_status)
    with fetch_status_passes [of net w r lib] a
    have "fetch_data_from_api lib net w
            = fetch_data_from_api lib (always (GetReturns (r\<lparr>status_code := 200\<rparr>))) w"
      by simp
    with main_same_fetch show ?thesis by blast
  qed
  from 1 2 3 show ?thesis by blast
qed

theorem network_failure_is_reported_witness:
  "fst (fetch_data_from_api Requests_from_2_27 (always (GetRaises ''Connection refused''))
          initial_world) = Inl (RequestException ''Connection refused'')
   \<and> program Requests_from_2_27 (always (GetRaises ''Connection refused'')) ascii_terminal
      = (0, [''Network error occurred: Connection refused''])
   \<and> fst (fetch_data_from_api Requests_from_2_27 (always (GetReturns not_found_response))
          initial_world)
      = Inl (HTTPError (''404 Client Error: Not Found for url: '' @ url))
   \<and> program Requests_from_2_27 (always (GetReturns not_found_response)) ascii_terminal
      = (0, [''Network error occurred: 404 Client Error: Not Found for url: '' @ url])
   \<and> fetch_data_from_api Requests_from_2_27 (always (GetReturns multiple_choices_response))
        initial_world
      = fetch_data_from_api Requests_from_2_27
          (always (GetReturns (multiple_choices_response\<lparr>status_code := 200\<rparr>))) initial_world"
proof -
  have a1: "refusal ascii_terminal (''Network error occurred: '' @ ''Connection refused'') = None"
    by (simp add: refusal_def is_ascii_def)
  have a2: "refusal ascii_terminal
              (''Network error occurred: '' @ http_error_message not_found_response) = None"
    using is_ascii_url
    by (simp add: refusal_def http_error_message_not_found is_ascii_Cons)
  from network_failure_is_reported
         [of "always (GetRaises ''Connection refused'')" initial_world Requests_from_2_27
             ascii_terminal] a1
  have 1: "fst (fetch_data_from_api Requests_from_2_27 (always (GetRaises ''Connection refused''))
          initial_world) = Inl (RequestException ''Connection refused'')"
    and "main Requests_from_2_27 (always (GetRaises ''Connection refused'')) ascii_terminal
           initial_world
         = (None, printed (''Network error occurred: '' @ ''Connection refused'')
                    (request_sent initial_world))"
    by (simp_all add: always_def)
  then have 2: "program Requests_from_2_27 (always (GetRaises ''Connection refused''))
        ascii_terminal = (0, [''Network error occurred: Connection refused''])"
    by (simp add: program_main stdout_printed_initial)
  from network_failure_is_reported
         [of "always (GetReturns not_found_response)" initial_world Requests_from_2_27
             ascii_terminal] a2
  have 3: "fst (fetch_data_from_api Requests_from_2_27 (always (GetReturns not_found_response))
          initial_world) = Inl (HTTPError (http_error_message not_found_response))"
    and "main Requests_from_2_27 (always (GetReturns not_found_response)) ascii_terminal
           initial_world
         = (None, printed (''Network error occurred: '' @ http_error_message not_found_response)
                    (request_sent initial_world))"
    by (simp_all add: always_def not_found_response_def)
  then have 4: "program Requests_from_2_27 (always (GetReturns not_found_response))
        ascii_terminal
      = (0, [''Network error occurred: 404 Client Error: Not Found for url: '' @ url])"
    by (simp add: program_main stdout_printed_initial http_error_message_not_found)
  from network_failure_is_reported
         [of "always (GetReturns multiple_choices_response)" initial_world Requests_from_2_27
             ascii_terminal]
  have 5: "fetch_data_from_api Requests_from_2_27 (always (GetReturns multiple_choices_response))
        initial_world
      = fetch_data_from_api Requests_from_2_27
          (always (GetReturns (multiple_choices_response\<lparr>status_code := 200\<rparr>))) initial_world"
    by (simp add: always_def multiple_choices_response_def)
  from 1 2 3 4 5 show ?thesis by (simp add: http_error_message_not_found)
qed

text \<open>
  C7, as stated: a 2xx response whose body is not JSON is reported on the
  unexpected-error path. With \<^verbatim>\<open>requests\<close> 2.27 or later the \<^verbatim>\<open>json.JSONDecodeError\<close> of
  the decoder is raised again as a \<^verbatim>\<open>RequestException\<close>, so the first clause of the
  caller handles it and the line printed begins with \<^verbatim>\<open>Network error occurred:\<close>.
\<close>

theorem undecodable_body_counterexample:
  "200 \<le> status_code not_json_response \<and> status_code not_json_response < 300
   \<and> content not_json_response = Malformed ''Expecting value: line 1 column 1 (char 0)''
   \<and> fst (fetch_data_from_api Requests_from_2_27 (always (GetReturns not_json_response))
            initial_world)
      = Inl (RequestsJSONDecodeError ''Expecting value: line 1 column 1 (char 0)'')
   \<and> is_RequestException (RequestsJSONDecodeError ''Expecting value: line 1 column 1 (char 0)'')
   \<and> program Requests_from_2_27 (always (GetReturns not_json_response)) utf8_terminal
      = (0, [''Network error occurred: Expecting value: line 1 column 1 (char 0)''])
   \<and> \<not> starts_with ''An unexpected error occurred:''
          ''Network error occurred: Expecting value: line 1 column 1 (char 0)''"
proof -
  have f: "fst (fetch_data_from_api Requests_from_2_27 (always (GetReturns not_json_response))
            initial_world)
      = Inl (RequestsJSONDecodeError ''Expecting value: line 1 column 1 (char 0)'')"
    using fetch_malformed [of "always (GetReturns not_json_response)" initial_world
            not_json_response "''Expecting value: line 1 column 1 (char 0)''" Requests_from_2_27]
    by (simp add: always_def not_json_response_def ok_response_def)
  have "is_ascii (report (Inl (RequestsJSONDecodeError
          ''Expecting value: line 1 column 1 (char 0)'')))"
    by (simp add: is_ascii_def)
  from main_ascii [OF f this, of utf8_terminal] f show ?thesis
    by (simp add: program_main stdout_printed_initial starts_with_def not_json_response_def
                  ok_response_def)
qed

text \<open>
  C7, amended: for a 2xx response whose body the JSON decoder rejects, the call fails
  with the error of \<^verbatim>\<open>response.json()\<close>, which it does not catch, and the caller prints one
  line (provided standard output accepts it) that depends on the class of the error. A
  \<^verbatim>\<open>json.JSONDecodeError\<close> (text outside the decoder's grammar) stays a \<^verbatim>\<open>ValueError\<close> with
  \<^verbatim>\<open>requests\<close> before 2.27 and is printed after \<^verbatim>\<open>An unexpected error occurred: \<close>; from
  2.27 on it is raised again as a \<^verbatim>\<open>RequestException\<close> and is printed after
  \<^verbatim>\<open>Network error occurred: \<close>. A \<^verbatim>\<open>RecursionError\<close> (nesting too deep) or a plain
  \<^verbatim>\<open>ValueError\<close> (integer literal too long) of the decoder is never wrapped and is
  printed after \<^verbatim>\<open>An unexpected error occurred: \<close> with every release.
\<close>

theorem undecodable_body_is_reported:
  assumes "net (length (requests_sent w)) = GetReturns r"
    and "200 \<le> status_code r" and "status_code r < 300"
  shows "(\<forall>m. content r = Malformed m
            \<longrightarrow> fst (fetch_data_from_api lib net w) =
                  Inl (case lib of Requests_before_2_27 \<Rightarrow> JSONDecodeError m
                                 | Requests_from_2_27 \<Rightarrow> RequestsJSONDecodeError m)
                \<and> (refusal tty ((case lib of
                                   Requests_before_2_27 \<Rightarrow> ''An unexpected error occurred: ''
                                 | Requests_from_2_27 \<Rightarrow> ''Network error occurred: '') @ m)
                     = None
                    \<longrightarrow> main lib net tty w =
                          (None, printed ((case lib of
                                   Requests_before_2_27 \<Rightarrow> ''An unexpected error occurred: ''
                                 | Requests_from_2_27 \<Rightarrow> ''Network error occurred: '') @ m)
                                   (request_sent w))))
       \<and> (\<forall>m. content r = TooDeep m
            \<longrightarrow> fst (fetch_data_from_api lib net w) = Inl (RecursionError m)
                \<and> (refusal tty (''An unexpected error occurred: '' @ m) = None
                    \<longrightarrow> main lib net tty w =
                          (None, printed (''An unexpected error occurred: '' @ m)
                                   (request_sent w))))
       \<and> (\<forall>m. content r = IntTooLong m
            \<longrightarrow> fst (fetch_data_from_api lib net w) = Inl (ValueError m)
                \<and> (refusal tty (''An unexpected error occurred: '' @ m) = None
                    \<longrightarrow> main lib net tty w =
                          (None, printed (''An unexpected error occurred: '' @ m)
                                   (request_sent w))))"
proof -
  have ok: "\<not> (400 \<le> status_code r \<and> status_code r < 600)" using assms(3) by simp
  have 1: "fst (fetch_data_from_api lib net w) =
                  Inl (case lib of Requests_before_2_27 \<Rightarrow> JSONDecodeError m
                                 | Requests_from_2_27 \<Rightarrow> RequestsJSONDecodeError m)
                \<and> (refusal tty ((case lib of
                                   Requests_before_2_27 \<Rightarrow> ''An unexpected error occurred: ''
                                 | Requests_from_2_27 \<Rightarrow> ''Network error occurred: '') @ m)
                     = None
                    \<longrightarrow> main lib net tty w =
                          (None, printed ((case lib of
                                   Requests_before_2_27 \<Rightarrow> ''An unexpected error occurred: ''
                                 | Requests_from_2_27 \<Rightarrow> ''Network error occurred: '') @ m)
                                   (request_sent w)))"
    if a: "content r = Malformed m" for m
  proof -
    from fetch_malformed [of net w r m lib] assms(1) ok a
    have e: "fst (fetch_data_from_api lib net w) =
                  Inl (case lib of Requests_before_2_27 \<Rightarrow> JSONDecodeError m
                                 | Requests_from_2_27 \<Rightarrow> RequestsJSONDecodeError m)" by simp
    with main_accepted [of tty lib net w] show ?thesis by (cases lib) simp_all
  qed
  have 2: "fst (fetch_data_from_api lib net w) = Inl (RecursionError m)
                \<and> (refusal tty (''An unexpected error occurred: '' @ m) = None
                    \<longrightarrow> main lib net tty w =
                          (None, printed (''An unexpected error occurred: '' @ m)
                                   (request_sent w)))"
    if a: "content r = TooDeep m" for m
  proof -
    from fetch_too_deep [of net w r m lib] assms(1) ok a
    have e: "fst (fetch_data_from_api lib net w) = Inl (RecursionError m)" by simp
    with main_accepted [of tty lib net w] show ?thesis by simp
  qed
  have 3: "fst (fetch_data_from_api lib net w) = Inl (ValueError m)
                \<and> (refusal tty (''An unexpected error occurred: '' @ m) = None
                    \<longrightarrow> main lib net tty w =
                          (None, printed (''An unexpected error occurred: '' @ m)
                                   (request_sent w)))"
    if a: "content r = IntTooLong m" for m
  proof -
    from fetch_int_too_long [of net w r m lib] assms(1) ok a
    have e: "fst (fetch_data_from_api lib net w) = Inl (ValueError m)" by simp
    with main_accepted [of tty lib net w] show ?thesis by simp
  qed
  from 1 2 3 show ?thesis by blast
qed

theorem undecodable_body_is_reported_witness:
  "200 \<le> status_code not_json_response \<and> status_code not_json_response < 300
   \<and> content not_json_response = Malformed ''Expecting value: line 1 column 1 (char 0)''
   \<and> program Requests_before_2_27 (always (GetReturns not_json_response)) ascii_terminal
      = (0, [''An unexpected error occurred: Expecting value: line 1 column 1 (char 0)''])
   \<and> content too_deep_response = TooDeep ''maximum recursion depth exceeded''
   \<and> program Requests_from_2_27 (always (GetReturns too_deep_response)) ascii_terminal
      = (0, [''An unexpected error occurred: maximum recursion depth exceeded''])"
proof -
  have a1: "refusal ascii_terminal
      (''An unexpected error occurred: '' @ ''Expecting value: line 1 column 1 (char 0)'') = None"
    and a2: "refusal ascii_terminal
      (''An unexpected error occurred: '' @ ''maximum recursion depth exceeded'') = None"
    by (simp_all add: refusal_def is_ascii_def)
  from undecodable_body_is_reported
          [of "always (GetReturns not_json_response)" initial_world not_json_response
              Requests_before_2_27 ascii_terminal] a1
  have "main Requests_before_2_27 (always (GetReturns not_json_response)) ascii_terminal
          initial_world
        = (None, printed (''An unexpected error occurred: ''
                            @ ''Expecting value: line 1 column 1 (char 0)'')
                   (request_sent initial_world))"
    by (simp add: always_def not_json_response_def ok_response_def)
  then have 1: "program Requests_before_2_27 (always (GetReturns not_json_response)) ascii_terminal
      = (0, [''An unexpected error occurred: Expecting value: line 1 column 1 (char 0)''])"
    by (simp add: program_main stdout_printed_initial)
  from undecodable_body_is_reported
          [of "always (GetReturns too_deep_response)" initial_world too_deep_response
              Requests_from_2_27 ascii_terminal] a2
  have "main Requests_from_2_27 (always (GetReturns too_deep_response)) ascii_terminal
          initial_world
        = (None, printed (''An unexpected error occurred: ''
                            @ ''maximum recursion depth exceeded'')
                   (request_sent initial_world))"
    by (simp add: always_def too_deep_response_def ok_response_def)
  then have 2: "program Requests_from_2_27 (always (GetReturns too_deep_response)) ascii_terminal
      = (0, [''An unexpected error occurred: maximum recursion depth exceeded''])"
    by (simp add: program_main stdout_printed_initial)
  from 1 2 show ?thesis
    by (simp add: not_json_response_def too_deep_response_def ok_response_def)
qed

text \<open>
  C8, as stated: the call returns a pair whose two components are both populated, or it
  fails; it never returns a username without a city. This fails for the canned body
  with \<^verbatim>\<open>"city": null\<close>: lines 63 to 65 return \<^verbatim>\<open>('jdoe', None)\<close> and the program prints
  \<^verbatim>\<open>Username: jdoe, City: None\<close>.
\<close>

theorem null_city_counterexample:
  "expected_shape null_city_body (JStr ''jdoe'') JNull
   \<and> fst (fetch_data_from_api Requests_from_2_27
            (always (GetReturns (ok_response (Decoded null_city_body)))) initial_world)
      = Inr (JStr ''jdoe'', JNull)
   \<and> program Requests_from_2_27 (always (GetReturns (ok_response (Decoded null_city_body))))
        utf8_terminal
      = (0, [''Username: jdoe, City: None''])"
proof -
  have f: "fst (fetch_data_from_api Requests_from_2_27
            (always (GetReturns (ok_response (Decoded null_city_body)))) initial_world)
      = Inr (JStr ''jdoe'', JNull)"
    using receives_ok_response [of null_city_body initial_world] null_city_shape
    by (simp add: fetch_received validate_Inr)
  have "is_ascii (report (Inr (JStr ''jdoe'', JNull)))"
    by (simp add: py_str_def is_ascii_def)
  from main_ascii [OF f this, of utf8_terminal] f null_city_shape show ?thesis
    by (simp add: program_main stdout_printed_initial py_str_def)
qed

text \<open>
  C8, amended: the call returns the pair \<open>(u, c)\<close> exactly when the response passes the
  status check and its decoded body has \<open>success\<close> truthy and holds \<open>u\<close> at
  \<open>login.username\<close> and \<open>c\<close> at \<open>location.city\<close> of the first record of \<open>data.data\<close>; in
  every other case it raises. So it never returns a pair when one of the two keys is
  missing. It does not check the two values: a \<open>null\<close> stored at either path is returned
  as it is.
\<close>

theorem fetch_never_partial:
  "(fst (fetch_data_from_api lib net w) = Inr (u, c)
      \<longleftrightarrow> (\<exists>r data. net (length (requests_sent w)) = GetReturns r
                \<and> \<not> (400 \<le> status_code r \<and> status_code r < 600)
                \<and> content r = Decoded data \<and> expected_shape data u c))
   \<and> (\<not> (\<exists>r data u' c'. net (length (requests_sent w)) = GetReturns r
                \<and> \<not> (400 \<le> status_code r \<and> status_code r < 600)
                \<and> content r = Decoded data \<and> expected_shape data u' c')
         \<longrightarrow> (\<exists>e. fst (fetch_data_from_api lib net w) = Inl e))
   \<and> (\<forall>data. receives net w data \<and> expected_shape data u JNull
         \<longrightarrow> fst (fetch_data_from_api lib net w) = Inr (u, JNull))
   \<and> (\<forall>data. receives net w data \<and> expected_shape data JNull c
         \<longrightarrow> fst (fetch_data_from_api lib net w) = Inr (JNull, c))"
proof -
  have returns: "fst (fetch_data_from_api lib net w) = Inr (x, y)
      \<longleftrightarrow> (\<exists>r data. net (length (requests_sent w)) = GetReturns r
                \<and> \<not> (400 \<le> status_code r \<and> status_code r < 600)
                \<and> content r = Decoded data \<and> expected_shape data x y)" for x y
  proof
    assume "fst (fetch_data_from_api lib net w) = Inr (x, y)"
    from fetch_Inr [OF this] show "\<exists>r data. net (length (requests_sent w)) = GetReturns r
                \<and> \<not> (400 \<le> status_code r \<and> status_code r < 600)
                \<and> content r = Decoded data \<and> expected_shape data x y"
      by (auto simp: validate_Inr)
  next
    assume "\<exists>r data. net (length (requests_sent w)) = GetReturns r
                \<and> \<not> (400 \<le> status_code r \<and> status_code r < 600)
                \<and> content r = Decoded data \<and> expected_shape data x y"
    then obtain r data where a: "net (length (requests_sent w)) = GetReturns r"
      "\<not> (400 \<le> status_code r \<and> status_code r < 600)" "content r = Decoded data"
      "expected_shape data x y" by blast
    from fetch_decoded [of net w r data lib] a
    show "fst (fetch_data_from_api lib net w) = Inr (x, y)" by (simp add: validate_Inr)
  qed
  have raises: "\<exists>e. fst (fetch_data_from_api lib net w) = Inl e"
    if no: "\<not> (\<exists>r data u' c'. net (length (requests_sent w)) = GetReturns r
                \<and> \<not> (400 \<le> status_code r \<and> status_code r < 600)
                \<and> content r = Decoded data \<and> expected_shape data u' c')"
  proof (cases "fst (fetch_data_from_api lib net w)")
    case (Inl e)
    then show ?thesis by simp
  next
    case (Inr p)
    obtain x y where "p = (x, y)" by (cases p)
    with Inr returns [of x y] no show ?thesis by blast
  qed
  have "fst (fetch_data_from_api lib net w) = Inr (x, y)"
    if "receives net w data" "expected_shape data x y" for data x y
    using that by (simp add: fetch_received validate_Inr)
  with returns [of u c] raises show ?thesis by blast
qed

theorem fetch_never_partial_witness:
  "(fst (fetch_data_from_api Requests_from_2_27
          (always (GetReturns (ok_response (Decoded canned_body)))) initial_world)
     = Inr (JStr ''jdoe'', JStr ''Paris''))
   \<and> expected_shape canned_body (JStr ''jdoe'') (JStr ''Paris'')
   \<and> fst (fetch_data_from_api Requests_from_2_27 (always (GetRaises ''Connection refused''))
            initial_world) \<noteq> Inr (JStr ''jdoe'', JStr ''Paris'')
   \<and> (\<exists>e. fst (fetch_data_from_api Requests_from_2_27
                 (always (GetRaises ''Connection refused'')) initial_world) = Inl e)
   \<and> expected_shape null_city_body (JStr ''jdoe'') JNull
   \<and> fst (fetch_data_from_api Requests_from_2_27
            (always (GetReturns (ok_response (Decoded null_city_body)))) initial_world)
      = Inr (JStr ''jdoe'', JNull)"
proof -
  have "\<exists>r data. always (GetReturns (ok_response (Decoded canned_body)))
                   (length (requests_sent initial_world)) = GetReturns r
                \<and> \<not> (400 \<le> status_code r \<and> status_code r < 600)
                \<and> content r = Decoded data
                \<and> expected_shape data (JStr ''jdoe'') (JStr ''Paris'')"
    using canned_shape by (simp add: always_def ok_response_def)
  with fetch_never_partial
         [of Requests_from_2_27 "always (GetReturns (ok_response (Decoded canned_body)))"
             initial_world "JStr ''jdoe''" "JStr ''Paris''"]
  have 1: "fst (fetch_data_from_api Requests_from_2_27
          (always (GetReturns (ok_response (Decoded canned_body)))) initial_world)
     = Inr (JStr ''jdoe'', JStr ''Paris'')" by blast
  have "\<not> (\<exists>r data. always (GetRaises ''Connection refused'')
                   (length (requests_sent initial_world)) = GetReturns r
                \<and> \<not> (400 \<le> status_code r \<and> status_code r < 600)
                \<and> content r = Decoded data
                \<and> expected_shape data (JStr ''jdoe'') (JStr ''Paris''))"
    by (simp add: always_def)
  with fetch_never_partial
         [of Requests_from_2_27 "always (GetRaises ''Connection refused'')"
             initial_world "JStr ''jdoe''" "JStr ''Paris''"]
  have 2: "fst (fetch_data_from_api Requests_from_2_27 (always (GetRaises ''Connection refused''))
            initial_world) \<noteq> Inr (JStr ''jdoe'', JStr ''Paris'')" by blast
  have "\<not> (\<exists>r data u' c'. always (GetRaises ''Connection refused'')
                   (length (requests_sent initial_world)) = GetReturns r
                \<and> \<not> (400 \<le> status_code r \<and> status_code r < 600)
                \<and> content r = Decoded data \<and> expected_shape data u' c')"
    by (simp add: always_def)
  with fetch_never_partial
         [of Requests_from_2_27 "always (GetRaises ''Connection refused'')"
             initial_world "JStr ''jdoe''" "JStr ''Paris''"]
  have 4: "\<exists>e. fst (fetch_data_from_api Requests_from_2_27
                 (always (GetRaises ''Connection refused'')) initial_world) = Inl e" by blast
  from fetch_never_partial
         [of Requests_from_2_27 "always (GetReturns (ok_response (Decoded null_city_body)))"
             initial_world "JStr ''jdoe''" "JStr ''Paris''"]
       receives_ok_response [of null_city_body initial_world] null_city_shape
  have 3: "fst (fetch_data_from_api Requests_from_2_27
            (always (GetReturns (ok_response (Decoded null_city_body)))) initial_world)
      = Inr (JStr ''jdoe'', JNull)" by blast
  from 1 2 3 4 canned_shape null_city_shape show ?thesis by simp
qed

text \<open>
  C9, as stated: whatever the outcome of the fetch, \<^verbatim>\<open>main()\<close> turns it into one printed
  message and returns; no exception leaves it and the exit status is 0. This fails when
  standard output cannot encode the line of an \<^verbatim>\<open>except\<close> clause: with the ASCII codec and
  a connection error whose text holds a non-ASCII character, the \<^verbatim>\<open>print\<close> of the first
  clause raises \<^verbatim>\<open>UnicodeEncodeError\<close>, which leaves \<^verbatim>\<open>main()\<close>; nothing is printed and the
  exit status is 1.
\<close>

theorem localized_failure_counterexample:
  "fst (fetch_data_from_api Requests_from_2_27 (always (GetRaises localized_message))
          initial_world) = Inl (RequestException localized_message)
   \<and> main Requests_from_2_27 (always (GetRaises localized_message)) ascii_terminal initial_world
      = (Some (UnicodeEncodeError
                 (quoted ''ascii'' @ '' codec can't encode character ''
                  @ quoted ([CHR 0x5C] @ ''xfc'')
                  @ '' in position 70: ordinal not in range(128)'')),
         request_sent initial_world)
   \<and> program Requests_from_2_27 (always (GetRaises localized_message)) ascii_terminal = (1, [])"
proof -
  have f: "fst (fetch_data_from_api Requests_from_2_27 (always (GetRaises localized_message))
          initial_world) = Inl (RequestException localized_message)"
    using fetch_raises [of "always (GetRaises localized_message)" initial_world
            localized_message Requests_from_2_27]
    by (simp add: always_def)
  have "refusal ascii_terminal (report (Inl (RequestException localized_message)))
          = Some (quoted ''ascii'' @ '' codec can't encode character ''
                  @ quoted ([CHR 0x5C] @ ''xfc'')
                  @ '' in position 70: ordinal not in range(128)'')"
    using refusal_localized by simp
  from main_refused_failure [OF f this] f show ?thesis
    by (simp add: program_main_raises stdout_request_sent_initial)
qed

text \<open>
  C9, amended: for every outcome of the fetch, \<^verbatim>\<open>main()\<close> has called
  \<^verbatim>\<open>fetch_data_from_api()\<close> once (each call sends one GET request, and one has been sent
  when \<^verbatim>\<open>main()\<close> ends). When standard output accepts the line that the caller has for the
  outcome (\<^verbatim>\<open>Username: ..., City: ...\<close> on success, and the text of the exception after
  \<^verbatim>\<open>Network error occurred: \<close>, \<^verbatim>\<open>Error parsing API response: \<close> or
  \<^verbatim>\<open>An unexpected error occurred: \<close> according to its class), exactly that line is
  printed and no exception leaves \<^verbatim>\<open>main()\<close>. When standard output refuses the line of a
  success, the \<^verbatim>\<open>UnicodeEncodeError\<close> of \<^verbatim>\<open>print\<close> is handled by the last clause, whose line
  is the text of that error after \<^verbatim>\<open>An unexpected error occurred: \<close>. When standard output
  refuses the line of an \<^verbatim>\<open>except\<close> clause (that one included), the \<^verbatim>\<open>UnicodeEncodeError\<close>
  leaves \<^verbatim>\<open>main()\<close> and nothing is printed.
  The exit status is 0 when \<^verbatim>\<open>main()\<close> returns and 1 when an exception leaves it.
\<close>

theorem main_reports_once:
  "snd (fetch_data_from_api lib net w) = request_sent w
   \<and> requests_sent (snd (main lib net tty w)) = requests_sent w @ [url]
   \<and> (refusal tty (report (fst (fetch_data_from_api lib net w))) = None
       \<longrightarrow> main lib net tty w =
             (None, printed (report (fst (fetch_data_from_api lib net w))) (request_sent w)))
   \<and> (\<forall>p m. fst (fetch_data_from_api lib net w) = Inr p
             \<and> refusal tty (report (Inr p)) = Some m
             \<and> refusal tty (''An unexpected error occurred: '' @ m) = None
       \<longrightarrow> main lib net tty w =
             (None, printed (''An unexpected error occurred: '' @ m) (request_sent w)))
   \<and> (\<forall>p m m'. fst (fetch_data_from_api lib net w) = Inr p
             \<and> refusal tty (report (Inr p)) = Some m
             \<and> refusal tty (''An unexpected error occurred: '' @ m) = Some m'
       \<longrightarrow> main lib net tty w = (Some (UnicodeEncodeError m'), request_sent w))
   \<and> (\<forall>e m. fst (fetch_data_from_api lib net w) = Inl e
             \<and> refusal tty (report (Inl e)) = Some m
       \<longrightarrow> main lib net tty w = (Some (UnicodeEncodeError m), request_sent w))
   \<and> program lib net tty =
       (if fst (main lib net tty initial_world) = None then 0 else 1,
        stdout (snd (main lib net tty initial_world)))"
proof -
  have 1: "main lib net tty w =
             (None, printed (report (fst (fetch_data_from_api lib net w))) (request_sent w))"
    if "refusal tty (report (fst (fetch_data_from_api lib net w))) = None"
    using that by (rule main_accepted)
  have 2: "main lib net tty w =
             (None, printed (''An unexpected error occurred: '' @ m) (request_sent w))"
    if "fst (fetch_data_from_api lib net w) = Inr p" "refusal tty (report (Inr p)) = Some m"
       "refusal tty (''An unexpected error occurred: '' @ m) = None" for p m
    using main_refused_success [OF that(1,2)] that(3)
    by (simp add: clause_print_def print_def)
  have 3: "main lib net tty w = (Some (UnicodeEncodeError m'), request_sent w)"
    if "fst (fetch_data_from_api lib net w) = Inr p" "refusal tty (report (Inr p)) = Some m"
       "refusal tty (''An unexpected error occurred: '' @ m) = Some m'" for p m m'
    using main_refused_success [OF that(1,2)] that(3)
    by (simp add: clause_print_def print_def)
  have 4: "main lib net tty w = (Some (UnicodeEncodeError m), request_sent w)"
    if "fst (fetch_data_from_api lib net w) = Inl e" "refusal tty (report (Inl e)) = Some m"
    for e m
    using that by (rule main_refused_failure)
  have 5: "program lib net tty =
       (if fst (main lib net tty initial_world) = None then 0 else 1,
        stdout (snd (main lib net tty initial_world)))"
    by (cases "main lib net tty initial_world") (auto simp: program_def split: option.splits)
  from 1 2 3 4 5 fetch_world [of lib net w] main_requests_sent [of lib net tty w]
  show ?thesis by blast
qed

theorem main_reports_once_witness:
  "program Requests_from_2_27 (always (GetReturns (ok_response (Decoded canned_body))))
     ascii_terminal = (0, [''Username: jdoe, City: Paris''])
   \<and> requests_sent (snd (main Requests_from_2_27
         (always (GetReturns (ok_response (Decoded canned_body)))) ascii_terminal initial_world))
      = [url]
   \<and> program Requests_from_2_27 (always (GetReturns (ok_response (Decoded accented_body))))
        ascii_terminal
      = (0, [''An unexpected error occurred: '' @ quoted ''ascii''
               @ '' codec can't encode character '' @ quoted ([CHR 0x5C] @ ''xeb'')
               @ '' in position 12: ordinal not in range(128)''])"
proof -
  let ?canned = "always (GetReturns (ok_response (Decoded canned_body)))"
  let ?accented = "always (GetReturns (ok_response (Decoded accented_body)))"
  let ?m = "quoted ''ascii'' @ '' codec can't encode character '' @ quoted ([CHR 0x5C] @ ''xeb'')
               @ '' in position 12: ordinal not in range(128)''"
  have f1: "fst (fetch_data_from_api Requests_from_2_27 ?canned initial_world)
             = Inr (JStr ''jdoe'', JStr ''Paris'')"
    using receives_ok_response [of canned_body initial_world] canned_shape
    by (simp add: fetch_received validate_Inr)
  have a1: "refusal ascii_terminal (report (Inr (JStr ''jdoe'', JStr ''Paris''))) = None"
    by (simp add: refusal_def py_str_def is_ascii_def)
  note t1 = main_reports_once [of Requests_from_2_27 ?canned initial_world ascii_terminal]
  from t1 have "refusal ascii_terminal
                  (report (fst (fetch_data_from_api Requests_from_2_27 ?canned initial_world)))
                  = None
       \<longrightarrow> main Requests_from_2_27 ?canned ascii_terminal initial_world =
             (None, printed
                      (report (fst (fetch_data_from_api Requests_from_2_27 ?canned initial_world)))
                      (request_sent initial_world))"
    by blast
  then have m1: "main Requests_from_2_27 ?canned ascii_terminal initial_world
              = (None, printed (report (Inr (JStr ''jdoe'', JStr ''Paris'')))
                         (request_sent initial_world))"
    unfolding f1 using a1 by blast
  from t1 have p1: "program Requests_from_2_27 ?canned ascii_terminal =
       (if fst (main Requests_from_2_27 ?canned ascii_terminal initial_world) = None
        then 0 else 1,
        stdout (snd (main Requests_from_2_27 ?canned ascii_terminal initial_world)))"
    and r1: "requests_sent (snd (main Requests_from_2_27 ?canned ascii_terminal initial_world))
              = requests_sent initial_world @ [url]"
    by blast+
  have f2: "fst (fetch_data_from_api Requests_from_2_27 ?accented initial_world)
             = Inr (JStr (''Zo'' @ [CHR 0xEB]), JStr ''Paris'')"
    using receives_ok_response [of accented_body initial_world] accented_shape
    by (simp add: fetch_received validate_Inr)
  have a2: "refusal ascii_terminal (report (Inr (JStr (''Zo'' @ [CHR 0xEB]), JStr ''Paris'')))
              = Some ?m"
    using refusal_accented by (simp add: py_str_def)
  have a3: "refusal ascii_terminal (''An unexpected error occurred: '' @ ?m) = None"
    by (simp add: refusal_def is_ascii_def quoted_def)
  from main_reports_once [of Requests_from_2_27 ?accented initial_world ascii_terminal] f2 a2 a3
  have m2: "main Requests_from_2_27 ?accented ascii_terminal initial_world
              = (None, printed (''An unexpected error occurred: '' @ ?m)
                         (request_sent initial_world))"
    and p2: "program Requests_from_2_27 ?accented ascii_terminal =
       (if fst (main Requests_from_2_27 ?accented ascii_terminal initial_world) = None
        then 0 else 1,
        stdout (snd (main Requests_from_2_27 ?accented ascii_terminal initial_world)))"
    by blast+
  have "requests_sent initial_world = []" by (simp add: initial_world_def)
  with m1 p1 r1 m2 p2 show ?thesis
    by (simp add: stdout_printed_initial py_str_def)
qed

text \<open>
  C10. When the decoded body is an object without the top-level key \<open>success\<close>, the
  first operand of the condition, \<^verbatim>\<open>data["success"]\<close>, raises \<^verbatim>\<open>KeyError('success')\<close>; the
  caller handles it in the \<^verbatim>\<open>KeyError\<close> clause and prints
  \<^verbatim>\<open>Error parsing API response: 'success'\<close>, not the message of the invalid-envelope
  exception.
\<close>

theorem missing_success_is_key_error:
  assumes "receives net w (JObj kvs)" and "map_of kvs ''success'' = None"
  shows "fst (fetch_data_from_api lib net w) = Inl (KeyError (KStr ''success''))
       \<and> main lib net tty w =
           (None, printed (''Error parsing API response: '' @ quoted ''success'') (request_sent w))"
proof -
  have "validate_and_extract (JObj kvs) = Inl (KeyError (KStr ''success''))"
    using assms(2) by (simp add: validate_and_extract_def envelope_ok_def)
  then have f: "fst (fetch_data_from_api lib net w) = Inl (KeyError (KStr ''success''))"
    using assms(1) by (simp add: fetch_received)
  have "is_ascii (report (Inl (KeyError (KStr ''success''))))"
    by (simp add: repr_success quoted_def is_ascii_def)
  from main_ascii [OF f this, of tty] f show ?thesis by (simp add: repr_success)
qed

theorem missing_success_is_key_error_witness:
  "receives (always (GetReturns (ok_response (Decoded no_success_body)))) initial_world
     no_success_body
   \<and> fst (fetch_data_from_api Requests_from_2_27
            (always (GetReturns (ok_response (Decoded no_success_body)))) initial_world)
      = Inl (KeyError (KStr ''success''))
   \<and> program Requests_from_2_27 (always (GetReturns (ok_response (Decoded no_success_body))))
        ascii_terminal
      = (0, [''Error parsing API response: '' @ quoted ''success''])"
  using missing_success_is_key_error
          [of "always (GetReturns (ok_response (Decoded no_success_body)))" initial_world
              "[(''data'', JObj [(''data'',
                 JArr [record_of (JObj [(''username'', JStr ''jdoe'')])
                                 (JObj [(''city'', JStr ''Paris'')])])])]"
              Requests_from_2_27 ascii_terminal]
        receives_ok_response [of no_success_body initial_world]
  by (simp add: no_success_body_def program_main stdout_printed_initial)

end
